theory Spec2Isabelle
  imports Complex_Main "HOL-Library.AList"
begin

section \<open>JSON values as \<^verbatim>\<open>response.json()\<close> returns them\<close>

text \<open>
  A parsed JSON body is a Python value: \<^verbatim>\<open>None\<close>, a \<^verbatim>\<open>bool\<close>, an \<^verbatim>\<open>int\<close>, a
  \<^verbatim>\<open>float\<close>, a \<^verbatim>\<open>str\<close>, a \<^verbatim>\<open>list\<close> or a \<^verbatim>\<open>dict\<close> with string keys. A \<^verbatim>\<open>dict\<close>
  keeps its keys in insertion order, so it is an association list; Python keeps a key
  once, which is the predicate \<open>distinct (map fst data)\<close>. The type of floats is
  left open: nothing in the client looks at a number.
\<close>

datatype 'f json =
    JNull
  | JBool bool
  | JInt int
  | JFloat 'f
  | JStr string
  | JArr "'f json list"
  | JObj "(string \<times> 'f json) list"

type_synonym 'f dict = "(string \<times> 'f json) list"

section \<open>\<^verbatim>\<open>MeteoClient._find_record_path\<close>\<close>

text \<open>
  The test \<^verbatim>\<open>isinstance(val, list) and val and isinstance(val[0], dict)\<close>, which
  both branches of \<^verbatim>\<open>_find_record_path\<close> apply to a value.
\<close>

fun is_record_list :: "'f json \<Rightarrow> bool" where
  "is_record_list (JArr (JObj d # rest)) = True"
| "is_record_list v = False"

text \<open>
  The loop \<^verbatim>\<open>for key, val in data.items(): if ...: return key\<close>, followed by
  \<^verbatim>\<open>return None\<close>.
\<close>

fun first_record_key :: "'f dict \<Rightarrow> string option" where
  "first_record_key [] = None"
| "first_record_key ((key, val) # items) =
     (if is_record_list val then Some key else first_record_key items)"

text \<open>
  \<^verbatim>\<open>record_path\<close> is \<^verbatim>\<open>str | None\<close>; the condition \<^verbatim>\<open>record_path and record_path in data\<close>
  is false for \<^verbatim>\<open>None\<close> and for the empty string, both being falsy in Python.
  \<^verbatim>\<open>data[record_path]\<close> is \<open>map_of data record_path\<close>.
\<close>

definition find_record_path :: "'f dict \<Rightarrow> string option \<Rightarrow> string option" where
  "find_record_path data record_path =
     (case record_path of
        None \<Rightarrow> first_record_key data
      | Some rp \<Rightarrow>
          (if rp \<noteq> [] \<and> rp \<in> fst ` set data then
             (case map_of data rp of
                Some val \<Rightarrow> if is_record_list val then Some rp else first_record_key data
              | None \<Rightarrow> first_record_key data)
           else first_record_key data))"

section \<open>\<^verbatim>\<open>MeteoClient._flatten_meta\<close>\<close>

text \<open>
  An assignment \<^verbatim>\<open>d[k] = v\<close> to a \<^verbatim>\<open>dict\<close> replaces the value of a key that is there,
  in place, and appends a new key at the end: that is \<open>AList.update k v d\<close>.
  The f-string \<^verbatim>\<open>f"{key}_{subk}"\<close> of two strings is their concatenation around an
  underscore.
\<close>

text \<open>The inner loop \<^verbatim>\<open>for subk, subv in val.items(): flat_meta[f"{key}_{subk}"] = subv\<close>.\<close>

fun flatten_sub :: "string \<Rightarrow> 'f dict \<Rightarrow> 'f dict \<Rightarrow> 'f dict" where
  "flatten_sub key [] flat_meta = flat_meta"
| "flatten_sub key ((subk, subv) # items) flat_meta =
     flatten_sub key items (AList.update (key @ ''_'' @ subk) subv flat_meta)"

text \<open>The outer loop \<^verbatim>\<open>for key, val in data.items()\<close>, with \<open>flat_meta\<close> as its state.\<close>

fun flatten_loop :: "'f dict \<Rightarrow> string \<Rightarrow> 'f dict \<Rightarrow> 'f dict" where
  "flatten_loop [] record_path flat_meta = flat_meta"
| "flatten_loop ((key, val) # items) record_path flat_meta =
     (if key = record_path then flatten_loop items record_path flat_meta
      else (case val of
              JObj d \<Rightarrow> flatten_loop items record_path (flatten_sub key d flat_meta)
            | _ \<Rightarrow> flatten_loop items record_path (AList.update key val flat_meta)))"

definition flatten_meta :: "'f dict \<Rightarrow> string \<Rightarrow> 'f dict" where
  "flatten_meta data record_path = flatten_loop data record_path []"

section \<open>Errors and the libraries the client calls\<close>

text \<open>
  Exceptions are values. \<open>HTTPError s\<close> is \<^verbatim>\<open>requests.exceptions.HTTPError\<close> with
  \<^verbatim>\<open>e.response.status_code == s\<close>, \<open>KeyError k\<close> a failed \<^verbatim>\<open>dict\<close> lookup,
  \<open>OverflowError\<close> a date out of range, and \<open>LibraryError msg\<close> any other exception
  that a library call raises. A call that may raise returns \<open>error + 'a\<close>, the error on
  the left.
\<close>

datatype error = HTTPError nat | KeyError string | OverflowError | LibraryError string

definition and_then :: "error + 'a \<Rightarrow> ('a \<Rightarrow> error + 'b) \<Rightarrow> error + 'b" where
  "and_then r f = (case r of Inl e \<Rightarrow> Inl e | Inr x \<Rightarrow> f x)"

text \<open>A \<^verbatim>\<open>pytz\<close> time zone is known by its name; \<^verbatim>\<open>TIME_ZONE = timezone("Europe/Vilnius")\<close>.\<close>

datatype timezone = timezone string

definition TIME_ZONE :: timezone where
  "TIME_ZONE = timezone ''Europe/Vilnius''"

text \<open>
  The client builds its tables with \<^verbatim>\<open>pandas\<close> only, and formats dates with
  \<^verbatim>\<open>datetime\<close>. Neither library belongs to the repository, so the calls the client makes
  are the fields of a record, over any type \<open>'df\<close> of tables, and every theorem holds for
  every such record. Each field is one call of the source:
  \<^item> \<open>pd_DataFrame xs\<close> is \<^verbatim>\<open>pd.DataFrame(xs)\<close> and \<open>pd_DataFrame_empty\<close> is
    \<^verbatim>\<open>pd.DataFrame()\<close>;
  \<^item> \<open>pd_json_normalize data rp meta\<close> is
    \<^verbatim>\<open>pd.json_normalize(data=data, record_path=rp, meta=meta)\<close>;
  \<^item> \<open>pd_concat dfs\<close> is \<^verbatim>\<open>pd.concat(dfs)\<close>, \<open>df_empty df\<close> is \<^verbatim>\<open>df.empty\<close> and
    \<open>df_columns df\<close> is the list of the labels in \<^verbatim>\<open>df.columns\<close>;
  \<^item> \<open>df_to_datetime col df\<close> is the table after
    \<^verbatim>\<open>df[col] = pd.to_datetime(df[col], errors="coerce")\<close>;
  \<^item> \<open>df_tz_localize tz col df\<close> is the table after
    \<^verbatim>\<open>df[col] = df[col].dt.tz_localize(tz, ambiguous="infer")\<close>;
  \<^item> \<open>df_tz_convert tz col df\<close> is the table after
    \<^verbatim>\<open>df[col] = df[col].dt.tz_convert(tz)\<close>;
  \<^item> \<open>df_set_index col df\<close>, \<open>df_rename_axis name df\<close> and \<open>df_sort_index df\<close> are
    \<^verbatim>\<open>df.set_index(col)\<close>, \<^verbatim>\<open>df.rename_axis(name)\<close> and \<^verbatim>\<open>df.sort_index()\<close>;
  \<^item> \<open>isoformat d\<close> is \<^verbatim>\<open>d.isoformat()\<close> of a date.
\<close>

record ('f, 'df) library =
  pd_DataFrame :: "'f json list \<Rightarrow> error + 'df"
  pd_DataFrame_empty :: "'df"
  pd_json_normalize :: "'f dict \<Rightarrow> string \<Rightarrow> string list \<Rightarrow> error + 'df"
  pd_concat :: "'df list \<Rightarrow> error + 'df"
  df_empty :: "'df \<Rightarrow> bool"
  df_columns :: "'df \<Rightarrow> string list"
  df_to_datetime :: "string \<Rightarrow> 'df \<Rightarrow> error + 'df"
  df_tz_localize :: "string \<Rightarrow> string \<Rightarrow> 'df \<Rightarrow> error + 'df"
  df_tz_convert :: "timezone \<Rightarrow> string \<Rightarrow> 'df \<Rightarrow> error + 'df"
  df_set_index :: "string \<Rightarrow> 'df \<Rightarrow> error + 'df"
  df_rename_axis :: "string \<Rightarrow> 'df \<Rightarrow> error + 'df"
  df_sort_index :: "'df \<Rightarrow> error + 'df"
  isoformat :: "nat \<Rightarrow> string"

section \<open>\<^verbatim>\<open>MeteoClient._set_timestamp_index\<close>\<close>

text \<open>\<^verbatim>\<open>s.endswith(suffix)\<close> on strings.\<close>

definition endswith :: "string \<Rightarrow> string \<Rightarrow> bool" where
  "endswith s suffix =
     (length suffix \<le> length s \<and> drop (length s - length suffix) s = suffix)"

text \<open>
  The loop \<^verbatim>\<open>for col in time_columns\<close>: three assignments to the column, the third
  under \<^verbatim>\<open>if time_zone\<close>. \<open>time_zone\<close> is \<open>None\<close> for Python's \<^verbatim>\<open>None\<close>; a time zone
  object is truthy. An exception ends the loop.
\<close>

fun convert_time_columns ::
  "('f, 'df) library \<Rightarrow> timezone option \<Rightarrow> string list \<Rightarrow> 'df \<Rightarrow> error + 'df" where
  "convert_time_columns pd time_zone [] df = Inr df"
| "convert_time_columns pd time_zone (col # cols) df =
     (case df_to_datetime pd col df of
        Inl e \<Rightarrow> Inl e
      | Inr df1 \<Rightarrow>
          (case df_tz_localize pd ''UTC'' col df1 of
             Inl e \<Rightarrow> Inl e
           | Inr df2 \<Rightarrow>
               (case (case time_zone of
                        None \<Rightarrow> Inr df2
                      | Some tz \<Rightarrow> df_tz_convert pd tz col df2) of
                  Inl e \<Rightarrow> Inl e
                | Inr df3 \<Rightarrow> convert_time_columns pd time_zone cols df3)))"

text \<open>
  \<^verbatim>\<open>time_columns[0]\<close> is read only where the list is not empty. The warning that the
  source logs when it is empty changes no value and is left out, as are all calls of
  \<^verbatim>\<open>LOGGER\<close>.
\<close>

definition set_timestamp_index ::
  "('f, 'df) library \<Rightarrow> 'df \<Rightarrow> timezone option \<Rightarrow> error + 'df" where
  "set_timestamp_index pd df time_zone =
     (let time_columns = filter (\<lambda>col. endswith col ''TimeUtc'') (df_columns pd df) in
      case time_columns of
        [] \<Rightarrow> Inr df
      | first # others \<Rightarrow>
          and_then (convert_time_columns pd time_zone time_columns df) (\<lambda>df'.
          and_then (df_set_index pd first df') (\<lambda>indexed.
          and_then (df_rename_axis pd ''timestamp'' indexed) (df_sort_index pd))))"

section \<open>\<^verbatim>\<open>MeteoClient._json_to_dataframe\<close>\<close>

text \<open>
  \<^verbatim>\<open>if rp:\<close> is false for \<^verbatim>\<open>None\<close> and for the empty key. \<^verbatim>\<open>json_data[rp]\<close> raises
  \<^verbatim>\<open>KeyError\<close> for a missing key; \<^verbatim>\<open>{**meta, rp: records}\<close> is \<open>meta\<close> with \<open>rp\<close>
  assigned; \<^verbatim>\<open>list(meta.keys())\<close> is \<open>map fst meta\<close>.
\<close>

definition json_to_dataframe ::
  "('f, 'df) library \<Rightarrow> 'f json \<Rightarrow> string option \<Rightarrow> timezone option \<Rightarrow> error + 'df" where
  "json_to_dataframe pd json_data record_path time_zone =
     (case json_data of
        JArr xs \<Rightarrow> pd_DataFrame pd xs
      | JObj data \<Rightarrow>
          (case find_record_path data record_path of
             None \<Rightarrow> pd_DataFrame pd [json_data]
           | Some rp \<Rightarrow>
               if rp = [] then pd_DataFrame pd [json_data]
               else (case map_of data rp of
                       None \<Rightarrow> Inl (KeyError rp)
                     | Some records \<Rightarrow>
                         (let meta = flatten_meta data rp in
                          and_then
                            (pd_json_normalize pd (AList.update rp records meta) rp (map fst meta))
                            (\<lambda>df_records_and_meta.
                               set_timestamp_index pd df_records_and_meta time_zone))))
      | _ \<Rightarrow> Inr (pd_DataFrame_empty pd))"

section \<open>The client, the session and the network\<close>

text \<open>
  What the client does besides computing is written into a trace: a \<^verbatim>\<open>session.get(url)\<close>
  is the event \<open>Get url\<close>, a \<^verbatim>\<open>time.sleep(t)\<close> the event \<open>Sleep t\<close>.
\<close>

datatype event = Get string | Sleep real

text \<open>
  A \<^verbatim>\<open>requests.Response\<close> is known by what its two methods do that the client calls:
  \<^verbatim>\<open>raise_for_status()\<close> raises or not, \<^verbatim>\<open>json()\<close> returns the parsed body or raises.
\<close>

record 'f response =
  raise_for_status :: "error option"
  response_json :: "error + 'f json"

text \<open>
  The object has the one attribute that \<^verbatim>\<open>__init__\<close> sets. A method runs in a state:
  the object \<open>self\<close> and the trace so far; it returns its result, or the exception it
  raises, and the state it leaves.
\<close>

record 's MeteoClient =
  session :: 's

record 's state =
  self :: "'s MeteoClient"
  trace :: "event list"

text \<open>
  The server and the session's own memory are outside the program: \<open>net s tr url\<close> is
  what a GET of \<open>url\<close> through the session \<open>s\<close> returns or raises after the events
  \<open>tr\<close>. It is a parameter of every method.
\<close>

type_synonym ('s, 'f) network = "'s \<Rightarrow> event list \<Rightarrow> string \<Rightarrow> error + 'f response"

definition BASE_URL :: string where
  "BASE_URL = ''https://api.meteo.lt/v1''"

text \<open>
  \<^verbatim>\<open>self.session = session or requests.Session()\<close>; \<open>new_session\<close> is the object that
  \<^verbatim>\<open>requests.Session()\<close> makes, \<open>None\<close> the default argument.
\<close>

definition init :: "'s \<Rightarrow> 's option \<Rightarrow> 's MeteoClient" where
  "init new_session session_arg =
     \<lparr>session = (case session_arg of None \<Rightarrow> new_session | Some s \<Rightarrow> s)\<rparr>"

definition session_get ::
  "('s, 'f) network \<Rightarrow> 's state \<Rightarrow> string \<Rightarrow> (error + 'f response) \<times> 's state" where
  "session_get net st url =
     (net (session (self st)) (trace st) url, st\<lparr>trace := trace st @ [Get url]\<rparr>)"

definition sleep :: "real \<Rightarrow> 's state \<Rightarrow> 's state" where
  "sleep secs st = st\<lparr>trace := trace st @ [Sleep secs]\<rparr>"

text \<open>An argument with a default value: \<open>None\<close> when the caller leaves it out.\<close>

definition or_default :: "'a \<Rightarrow> 'a option \<Rightarrow> 'a" where
  "or_default d arg = (case arg of None \<Rightarrow> d | Some a \<Rightarrow> a)"

section \<open>The endpoint methods\<close>

text \<open>
  The eight endpoint methods have the same three statements and differ in the URL and in
  the arguments of the normalization:
  \<^verbatim>\<open>response = self.session.get(url)\<close>, \<^verbatim>\<open>response.raise_for_status()\<close>,
  \<^verbatim>\<open>return self._json_to_dataframe(response.json(), ...)\<close>.
  \<open>get_table\<close> is these statements.
\<close>

definition get_table ::
  "('f, 'df) library \<Rightarrow> ('s, 'f) network \<Rightarrow> 's state \<Rightarrow> string \<Rightarrow> string option \<Rightarrow>
   timezone option \<Rightarrow> (error + 'df) \<times> 's state" where
  "get_table pd net st url record_path time_zone =
     (case session_get net st url of
        (Inl e, st') \<Rightarrow> (Inl e, st')
      | (Inr response, st') \<Rightarrow>
          (case raise_for_status response of
             Some e \<Rightarrow> (Inl e, st')
           | None \<Rightarrow>
               (case response_json response of
                  Inl e \<Rightarrow> (Inl e, st')
                | Inr body \<Rightarrow> (json_to_dataframe pd body record_path time_zone, st'))))"

definition get_place_forecast_by_type ::
  "('f, 'df) library \<Rightarrow> ('s, 'f) network \<Rightarrow> 's state \<Rightarrow> string \<Rightarrow> string option \<Rightarrow>
   timezone option option \<Rightarrow> (error + 'df) \<times> 's state" where
  "get_place_forecast_by_type pd net st place_code forecast_type time_zone =
     get_table pd net st
       (BASE_URL @ ''/places/'' @ place_code @ ''/forecasts/'' @
          or_default ''long-term'' forecast_type)
       (Some ''forecastTimestamps'') (or_default (Some TIME_ZONE) time_zone)"

definition get_station_historical_observations ::
  "('f, 'df) library \<Rightarrow> ('s, 'f) network \<Rightarrow> 's state \<Rightarrow> string \<Rightarrow> string option \<Rightarrow>
   timezone option option \<Rightarrow> (error + 'df) \<times> 's state" where
  "get_station_historical_observations pd net st station_code date_arg time_zone =
     get_table pd net st
       (BASE_URL @ ''/stations/'' @ station_code @ ''/observations/'' @
          or_default ''latest'' date_arg)
       (Some ''observations'') (or_default (Some TIME_ZONE) time_zone)"

definition get_places ::
  "('f, 'df) library \<Rightarrow> ('s, 'f) network \<Rightarrow> 's state \<Rightarrow> (error + 'df) \<times> 's state" where
  "get_places pd net st = get_table pd net st (BASE_URL @ ''/places'') None (Some TIME_ZONE)"

definition get_place_info ::
  "('f, 'df) library \<Rightarrow> ('s, 'f) network \<Rightarrow> 's state \<Rightarrow> string \<Rightarrow>
   (error + 'df) \<times> 's state" where
  "get_place_info pd net st place_code =
     get_table pd net st (BASE_URL @ ''/places/'' @ place_code) None (Some TIME_ZONE)"

definition get_place_forecasts ::
  "('f, 'df) library \<Rightarrow> ('s, 'f) network \<Rightarrow> 's state \<Rightarrow> string \<Rightarrow>
   (error + 'df) \<times> 's state" where
  "get_place_forecasts pd net st place_code =
     get_table pd net st (BASE_URL @ ''/places/'' @ place_code @ ''/forecasts'')
       None (Some TIME_ZONE)"

definition get_stations ::
  "('f, 'df) library \<Rightarrow> ('s, 'f) network \<Rightarrow> 's state \<Rightarrow> (error + 'df) \<times> 's state" where
  "get_stations pd net st = get_table pd net st (BASE_URL @ ''/stations'') None (Some TIME_ZONE)"

definition get_station_info ::
  "('f, 'df) library \<Rightarrow> ('s, 'f) network \<Rightarrow> 's state \<Rightarrow> string \<Rightarrow>
   (error + 'df) \<times> 's state" where
  "get_station_info pd net st station_code =
     get_table pd net st (BASE_URL @ ''/stations/'' @ station_code) None (Some TIME_ZONE)"

definition get_more_station_info ::
  "('f, 'df) library \<Rightarrow> ('s, 'f) network \<Rightarrow> 's state \<Rightarrow> string \<Rightarrow>
   (error + 'df) \<times> 's state" where
  "get_more_station_info pd net st station_code =
     get_table pd net st (BASE_URL @ ''/stations/'' @ station_code @ ''/observations'')
       None (Some TIME_ZONE)"

section \<open>\<^verbatim>\<open>MeteoClient.get_station_historical_observations_range\<close>\<close>

text \<open>
  A \<^verbatim>\<open>datetime.date\<close> is its proleptic Gregorian ordinal (\<^verbatim>\<open>date.toordinal()\<close>): 1 is
  0001-01-01 and \<open>MAXORDINAL\<close> is 9999-12-31, the last date there is. Dates compare
  as their ordinals do, and \<^verbatim>\<open>d + timedelta(days=n)\<close> is the date of ordinal \<open>d + n\<close>,
  or \<^verbatim>\<open>OverflowError\<close> past the last date. A \<^verbatim>\<open>datetime\<close> is a date and a time of day;
  \<^verbatim>\<open>.date()\<close> is the field \<open>date\<close>.
\<close>

definition MAXORDINAL :: nat where
  "MAXORDINAL = 3652059"

record datetime =
  date :: nat
  microsecond_of_day :: nat

definition add_days :: "nat \<Rightarrow> nat \<Rightarrow> error + nat" where
  "add_days d n = (if 0 < d + n \<and> d + n \<le> MAXORDINAL then Inr (d + n) else Inl OverflowError)"

text \<open>
  The \<^verbatim>\<open>while\<close> loop, from the head of an iteration, with its variables
  \<open>current_date\<close> and \<open>all_dfs\<close>. It need not end (a server that answers 429 for ever),
  so not returning is the value \<open>None\<close>. The \<^verbatim>\<open>except\<close> clause catches an
  \<^verbatim>\<open>HTTPError\<close> only; \<^verbatim>\<open>continue\<close> goes back to the head with the same date.
\<close>

partial_function (option) range_loop ::
  "('f, 'df) library \<Rightarrow> ('s, 'f) network \<Rightarrow> string \<Rightarrow> nat \<Rightarrow> timezone option \<Rightarrow>
   nat \<Rightarrow> 'df list \<Rightarrow> 's state \<Rightarrow> ((error + 'df list) \<times> 's state) option" where
  "range_loop pd net station_code end_day time_zone current_date all_dfs st =
     (if current_date \<le> end_day then
        (case get_station_historical_observations pd net st station_code
                (Some (isoformat pd current_date)) (Some time_zone) of
           (Inl (HTTPError status), st1) \<Rightarrow>
             if status = 429 then
               range_loop pd net station_code end_day time_zone current_date all_dfs
                 (sleep 5 st1)
             else Some (Inl (HTTPError status), st1)
         | (Inl e, st1) \<Rightarrow> Some (Inl e, st1)
         | (Inr df_observations, st1) \<Rightarrow>
             (let all_dfs' =
                    (if \<not> df_empty pd df_observations then all_dfs @ [df_observations]
                     else all_dfs);
                  st2 = sleep 0.15 st1
              in case add_days current_date 1 of
                   Inl e \<Rightarrow> Some (Inl e, st2)
                 | Inr next_date \<Rightarrow>
                     range_loop pd net station_code end_day time_zone next_date all_dfs' st2))
      else Some (Inr all_dfs, st))"

text \<open>
  The method: the loop from \<^verbatim>\<open>start_date.date()\<close> with no table, then
  \<^verbatim>\<open>pd.concat(all_dfs) if all_dfs else pd.DataFrame()\<close>.
\<close>

definition get_station_historical_observations_range ::
  "('f, 'df) library \<Rightarrow> ('s, 'f) network \<Rightarrow> 's state \<Rightarrow> string \<Rightarrow> datetime \<Rightarrow> datetime \<Rightarrow>
   timezone option option \<Rightarrow> ((error + 'df) \<times> 's state) option" where
  "get_station_historical_observations_range pd net st station_code start_date end_date
       time_zone =
     (case range_loop pd net station_code (date end_date)
             (or_default (Some TIME_ZONE) time_zone) (date start_date) [] st of
        None \<Rightarrow> None
      | Some (Inl e, st') \<Rightarrow> Some (Inl e, st')
      | Some (Inr all_dfs, st') \<Rightarrow>
          Some (if all_dfs \<noteq> [] then pd_concat pd all_dfs else Inr (pd_DataFrame_empty pd),
                st'))"

section \<open>A library to run the client on examples\<close>

text \<open>
  The examples need one library to run with. Its tables are terms: a table is the call
  that made it, applied to the tables it was made from, so that an example shows which
  calls the client made, on which arguments and in which order. No call raises. The
  labels of a table of records are the keys of the first record, followed by the
  metadata fields; a table is empty when it has no record.
\<close>

datatype 'f frame =
    DataFrame "'f json list"
  | DataFrame_empty
  | Json_normalize "'f dict" string "string list"
  | Concat "'f frame list"
  | To_datetime string "'f frame"
  | Tz_localize string string "'f frame"
  | Tz_convert timezone string "'f frame"
  | Set_index string "'f frame"
  | Rename_axis string "'f frame"
  | Sort_index "'f frame"

fun record_keys :: "'f json list \<Rightarrow> string list" where
  "record_keys (JObj d # rest) = map fst d"
| "record_keys xs = []"

fun frame_columns :: "'f frame \<Rightarrow> string list" where
  "frame_columns (DataFrame xs) = record_keys xs"
| "frame_columns DataFrame_empty = []"
| "frame_columns (Json_normalize data rp meta) =
     (case map_of data rp of Some (JArr xs) \<Rightarrow> record_keys xs | _ \<Rightarrow> []) @ meta"
| "frame_columns (Concat fs) = remdups (concat (map frame_columns fs))"
| "frame_columns (To_datetime col f) = frame_columns f"
| "frame_columns (Tz_localize tz col f) = frame_columns f"
| "frame_columns (Tz_convert tz col f) = frame_columns f"
| "frame_columns (Set_index col f) = removeAll col (frame_columns f)"
| "frame_columns (Rename_axis name f) = frame_columns f"
| "frame_columns (Sort_index f) = frame_columns f"

fun frame_empty :: "'f frame \<Rightarrow> bool" where
  "frame_empty (DataFrame xs) = (xs = [])"
| "frame_empty DataFrame_empty = True"
| "frame_empty (Json_normalize data rp meta) =
     (case map_of data rp of Some (JArr xs) \<Rightarrow> xs = [] | _ \<Rightarrow> True)"
| "frame_empty (Concat fs) = list_all frame_empty fs"
| "frame_empty (To_datetime col f) = frame_empty f"
| "frame_empty (Tz_localize tz col f) = frame_empty f"
| "frame_empty (Tz_convert tz col f) = frame_empty f"
| "frame_empty (Set_index col f) = frame_empty f"
| "frame_empty (Rename_axis name f) = frame_empty f"
| "frame_empty (Sort_index f) = frame_empty f"

text \<open>
  \<^verbatim>\<open>date.isoformat()\<close> as CPython computes it: the year, month and day of an ordinal
  (\<^verbatim>\<open>_ord2ymd\<close>), printed as \<^verbatim>\<open>%04d-%02d-%02d\<close>.
\<close>

definition DAYS_IN_MONTH :: "nat list" where
  "DAYS_IN_MONTH = [0, 31, 28, 31, 30, 31, 30, 31, 31, 30, 31, 30, 31]"

definition DAYS_BEFORE_MONTH :: "nat list" where
  "DAYS_BEFORE_MONTH = [0, 0, 31, 59, 90, 120, 151, 181, 212, 243, 273, 304, 334]"

definition ord2ymd :: "nat \<Rightarrow> nat \<times> nat \<times> nat" where
  "ord2ymd ordinal =
     (let n = ordinal - 1;
          n400 = n div 146097; n = n mod 146097;
          n100 = n div 36524; n = n mod 36524;
          n4 = n div 1461; n = n mod 1461;
          n1 = n div 365; n = n mod 365;
          year = n400 * 400 + 1 + n100 * 100 + n4 * 4 + n1
      in if n1 = 4 \<or> n100 = 4 then (year - 1, 12, 31)
         else
           (let leapyear = (n1 = 3 \<and> (n4 \<noteq> 24 \<or> n100 = 3));
                month = (n + 50) div 32;
                preceding = DAYS_BEFORE_MONTH ! month + (if 2 < month \<and> leapyear then 1 else 0)
            in if n < preceding then
                 (let month' = month - 1;
                      preceding' = preceding -
                        (DAYS_IN_MONTH ! month' + (if month' = 2 \<and> leapyear then 1 else 0))
                  in (year, month', n - preceding' + 1))
               else (year, month, n - preceding + 1)))"

definition digit :: "nat \<Rightarrow> char" where
  "digit n = ''0123456789'' ! (n mod 10)"

definition ymd_isoformat :: "nat \<times> nat \<times> nat \<Rightarrow> string" where
  "ymd_isoformat ymd =
     (case ymd of (y, m, d) \<Rightarrow>
        [digit (y div 1000), digit (y div 100), digit (y div 10), digit y] @ ''-'' @
        [digit (m div 10), digit m] @ ''-'' @ [digit (d div 10), digit d])"

definition example_library :: "(real, real frame) library" where
  "example_library =
     \<lparr>pd_DataFrame = (\<lambda>xs. Inr (DataFrame xs)),
      pd_DataFrame_empty = DataFrame_empty,
      pd_json_normalize = (\<lambda>data rp meta. Inr (Json_normalize data rp meta)),
      pd_concat = (\<lambda>dfs. Inr (Concat dfs)),
      df_empty = frame_empty,
      df_columns = frame_columns,
      df_to_datetime = (\<lambda>col df. Inr (To_datetime col df)),
      df_tz_localize = (\<lambda>tz col df. Inr (Tz_localize tz col df)),
      df_tz_convert = (\<lambda>tz col df. Inr (Tz_convert tz col df)),
      df_set_index = (\<lambda>col df. Inr (Set_index col df)),
      df_rename_axis = (\<lambda>name df. Inr (Rename_axis name df)),
      df_sort_index = (\<lambda>df. Inr (Sort_index df)),
      isoformat = (\<lambda>d. ymd_isoformat (ord2ymd d))\<rparr>"

text \<open>A body as the observations endpoint sends it, cut down to one record.\<close>

definition observations_body :: "real dict" where
  "observations_body =
     [(''station'', JObj [(''code'', JStr ''vilniaus-ams''), (''name'', JStr ''Vilnius'')]),
      (''observations'',
       JArr [JObj [(''observationTimeUtc'', JStr ''2024-01-01 00:00:00''),
                   (''airTemperature'', JInt 2)]])]"

text \<open>
  A server for the examples. \<open>ok_response body\<close> is a response with a success status
  and the JSON body \<open>body\<close>; \<open>error_response status\<close> is one for which
  \<^verbatim>\<open>raise_for_status()\<close> raises with this status, and whose body is not JSON. The server
  has the observations of one station for two days, none on the second, and answers
  404 to every other request. The rate-limited server answers 429 to a request that
  is the first event of all, and is the same afterwards.
\<close>

definition ok_response :: "'f json \<Rightarrow> 'f response" where
  "ok_response body = \<lparr>raise_for_status = None, response_json = Inr body\<rparr>"

definition error_response :: "nat \<Rightarrow> 'f response" where
  "error_response status =
     \<lparr>raise_for_status = Some (HTTPError status),
      response_json = Inl (LibraryError ''JSONDecodeError'')\<rparr>"

definition example_server :: "(unit, real) network" where
  "example_server s tr url =
     (if url = ''https://api.meteo.lt/v1/stations/vilniaus-ams/observations/2024-01-01''
      then Inr (ok_response (JObj observations_body))
      else if url = ''https://api.meteo.lt/v1/stations/vilniaus-ams/observations/2024-01-02''
      then Inr (ok_response (JArr []))
      else Inr (error_response 404))"


text \<open>The state of a client that has just been made, with the session \<open>()\<close>.\<close>

definition new_client :: "unit state" where
  "new_client = \<lparr>self = init () None, trace = []\<rparr>"


text \<open>
  A second library for the examples, which raises on two shapes as \<^verbatim>\<open>pandas\<close> does:
  \<^verbatim>\<open>pd.DataFrame\<close> raises \<^verbatim>\<open>AttributeError\<close> for a list whose first element is an object
  and in which an element is no object, and \<^verbatim>\<open>pd.json_normalize\<close> raises \<^verbatim>\<open>ValueError\<close>
  (``Conflicting metadata name'') when a name in \<^verbatim>\<open>meta\<close> is a key of the first record.
  Everywhere else it is the library of the examples.
\<close>

fun is_object :: "'f json \<Rightarrow> bool" where
  "is_object (JObj d) = True"
| "is_object v = False"

definition raising_library :: "(real, real frame) library" where
  "raising_library =
     example_library
       \<lparr>pd_DataFrame :=
          (\<lambda>xs. case xs of
                  JObj d # rest \<Rightarrow>
                    if list_all is_object rest then Inr (DataFrame xs)
                    else Inl (LibraryError ''AttributeError'')
                | _ \<Rightarrow> Inr (DataFrame xs)),
        pd_json_normalize :=
          (\<lambda>data rp meta.
             if list_ex (\<lambda>name. name \<in> set (frame_columns (Json_normalize data rp []))) meta
             then Inl (LibraryError ''ValueError'')
             else Inr (Json_normalize data rp meta))\<rparr>"

section \<open>What the specification says, as definitions\<close>

text \<open>
  The definitions of this section are not taken from the source: they write down the
  words of the specification, and the theorems compare the source with them.
\<close>

text \<open>
  ``\<open>key\<close> is a key of the object whose value is a non-empty list whose first element
  is an object.''
\<close>

definition holds_records :: "'f dict \<Rightarrow> string \<Rightarrow> bool" where
  "holds_records data key = list_ex (\<lambda>(k, val). k = key \<and> is_record_list val) data"

text \<open>
  ``\<open>key\<close> is the first key, in the object's key order, whose value is a non-empty
  list whose first element is an object.''
\<close>

definition is_first_record_key :: "'f dict \<Rightarrow> string \<Rightarrow> bool" where
  "is_first_record_key data key =
     (\<exists>i < length data. fst (data ! i) = key \<and> is_record_list (snd (data ! i)) \<and>
        (\<forall>j < i. \<not> is_record_list (snd (data ! j))))"

text \<open>
  The entries that the specification lists for the flattened metadata, in the order of
  the object: for every top-level key other than \<open>rp\<close>, one entry \<open>key_subkey\<close> per
  subkey when the value is an object, and one entry under the key itself otherwise.
\<close>

definition spec_meta_entries :: "'f dict \<Rightarrow> string \<Rightarrow> 'f dict" where
  "spec_meta_entries data rp =
     concat (map (\<lambda>(key, val).
       if key = rp then []
       else (case val of
               JObj d \<Rightarrow> map (\<lambda>(subk, subv). (key @ ''_'' @ subk, subv)) d
             | _ \<Rightarrow> [(key, val)])) data)"

text \<open>Assigning a list of entries to a \<^verbatim>\<open>dict\<close>, one after the other.\<close>

definition assign_all :: "'f dict \<Rightarrow> 'f dict \<Rightarrow> 'f dict" where
  "assign_all entries flat_meta = fold (\<lambda>(k, v). AList.update k v) entries flat_meta"

text \<open>
  ``The column is converted to timezone-aware datetimes: localized as UTC and, when a
  timezone is given, converted to it.''
\<close>

definition spec_localize_column ::
  "('f, 'df) library \<Rightarrow> timezone option \<Rightarrow> string \<Rightarrow> 'df \<Rightarrow> error + 'df" where
  "spec_localize_column pd time_zone col df =
     and_then (df_to_datetime pd col df) (\<lambda>parsed.
     and_then (df_tz_localize pd ''UTC'' col parsed) (\<lambda>utc.
       case time_zone of None \<Rightarrow> Inr utc | Some tz \<Rightarrow> df_tz_convert pd tz col utc))"

text \<open>
  ``Every timestamp column is converted; the first such column becomes the index, the
  index is renamed \<open>timestamp\<close>, and the rows are sorted ascending by it.''
\<close>

definition spec_timestamp_index ::
  "('f, 'df) library \<Rightarrow> 'df \<Rightarrow> timezone option \<Rightarrow> error + 'df" where
  "spec_timestamp_index pd df time_zone =
     (let cols = filter (\<lambda>col. endswith col ''TimeUtc'') (df_columns pd df) in
      and_then
        (fold (\<lambda>col r. and_then r (spec_localize_column pd time_zone col)) cols (Inr df))
        (\<lambda>converted.
      and_then (df_set_index pd (hd cols) converted) (\<lambda>indexed.
      and_then (df_rename_axis pd ''timestamp'' indexed) (\<lambda>renamed.
      df_sort_index pd renamed))))"

text \<open>A call returns: it raises no exception.\<close>

definition returns :: "error + 'a \<Rightarrow> bool" where
  "returns r = (case r of Inl e \<Rightarrow> False | Inr x \<Rightarrow> True)"

text \<open>No call of the library raises, whatever its arguments.\<close>

definition library_never_raises :: "('f, 'df) library \<Rightarrow> bool" where
  "library_never_raises pd =
     ((\<forall>xs. returns (pd_DataFrame pd xs)) \<and>
      (\<forall>data rp meta. returns (pd_json_normalize pd data rp meta)) \<and>
      (\<forall>dfs. returns (pd_concat pd dfs)) \<and>
      (\<forall>col df. returns (df_to_datetime pd col df)) \<and>
      (\<forall>tz col df. returns (df_tz_localize pd tz col df)) \<and>
      (\<forall>tz col df. returns (df_tz_convert pd tz col df)) \<and>
      (\<forall>col df. returns (df_set_index pd col df)) \<and>
      (\<forall>name df. returns (df_rename_axis pd name df)) \<and>
      (\<forall>df. returns (df_sort_index pd df)))"

text \<open>
  What the specification says of an endpoint method that requests \<open>url\<close> in the state
  \<open>st\<close> and ends with \<open>out\<close>: an exception of the request, of the status check, of
  the parsing or of the normalization is the exception of the method; a table is
  returned only for a response that passes the status check, and is the normalization
  of its parsed body; and the method has made this one request and nothing else.
\<close>

definition propagates_errors ::
  "('f, 'df) library \<Rightarrow> ('s, 'f) network \<Rightarrow> 's state \<Rightarrow> string \<Rightarrow> string option \<Rightarrow>
   timezone option \<Rightarrow> (error + 'df) \<times> 's state \<Rightarrow> bool" where
  "propagates_errors pd net st url record_path time_zone out =
     ((\<forall>e. net (session (self st)) (trace st) url = Inl e \<longrightarrow> fst out = Inl e) \<and>
      (\<forall>response e.
          net (session (self st)) (trace st) url = Inr response \<and>
          raise_for_status response = Some e \<longrightarrow> fst out = Inl e) \<and>
      (\<forall>response e.
          net (session (self st)) (trace st) url = Inr response \<and>
          raise_for_status response = None \<and> response_json response = Inl e \<longrightarrow>
          fst out = Inl e) \<and>
      (\<forall>response body.
          net (session (self st)) (trace st) url = Inr response \<and>
          raise_for_status response = None \<and> response_json response = Inr body \<longrightarrow>
          fst out = json_to_dataframe pd body record_path time_zone) \<and>
      (\<forall>table. fst out = Inr table \<longrightarrow>
         (\<exists>response body.
            net (session (self st)) (trace st) url = Inr response \<and>
            raise_for_status response = None \<and> response_json response = Inr body \<and>
            json_to_dataframe pd body record_path time_zone = Inr table)) \<and>
      trace (snd out) = trace st @ [Get url])"









text \<open>
  The exception \<open>e\<close> is one that a call of \<^verbatim>\<open>pandas\<close> raises: one of the calls that the
  normalization makes returns it, for some arguments.
\<close>

definition raised_by_library :: "('f, 'df) library \<Rightarrow> error \<Rightarrow> bool" where
  "raised_by_library pd e =
     ((\<exists>xs. pd_DataFrame pd xs = Inl e) \<or>
      (\<exists>data rp meta. pd_json_normalize pd data rp meta = Inl e) \<or>
      (\<exists>col df. df_to_datetime pd col df = Inl e) \<or>
      (\<exists>tz col df. df_tz_localize pd tz col df = Inl e) \<or>
      (\<exists>tz col df. df_tz_convert pd tz col df = Inl e) \<or>
      (\<exists>col df. df_set_index pd col df = Inl e) \<or>
      (\<exists>name df. df_rename_axis pd name df = Inl e) \<or>
      (\<exists>df. df_sort_index pd df = Inl e))"

section \<open>Facts used by several claims\<close>

lemma and_then_simps [simp]:
  "and_then (Inl e) f = Inl e"
  "and_then (Inr x) f = f x"
  by (simp_all add: and_then_def)

lemma returns_simps [simp]:
  "returns (Inr x)"
  "\<not> returns (Inl e)"
  by (simp_all add: returns_def)

lemma returnsE:
  assumes "returns r"
  obtains x where "r = Inr x"
  using assms by (cases r) simp_all

lemma first_record_key_None:
  "first_record_key data = None \<longleftrightarrow> \<not> list_ex (\<lambda>(k, val). is_record_list val) data"
  by (induction data rule: first_record_key.induct) (auto simp: list_ex_iff)

lemma first_record_key_is_key:
  "first_record_key data = Some key \<Longrightarrow> key \<in> fst ` set data"
  by (induction data rule: first_record_key.induct) (auto split: if_splits)

lemma find_record_path_is_key:
  assumes "find_record_path data record_path = Some rp"
  shows "\<exists>records. map_of data rp = Some records"
proof -
  from assms have "rp \<in> fst ` set data"
    by (auto simp: find_record_path_def dest: first_record_key_is_key
        split: option.splits if_splits)
  then have "map_of data rp \<noteq> None" by (simp add: map_of_eq_None_iff)
  then show ?thesis by blast
qed

lemma json_to_dataframe_records:
  assumes "find_record_path data record_path = Some rp" and "rp \<noteq> []"
    and "map_of data rp = Some records"
  shows "json_to_dataframe pd (JObj data) record_path time_zone =
           and_then
             (pd_json_normalize pd (AList.update rp records (flatten_meta data rp)) rp
                (map fst (flatten_meta data rp)))
             (\<lambda>df. set_timestamp_index pd df time_zone)"
  using assms by (simp add: json_to_dataframe_def Let_def)

lemma json_to_dataframe_array: "json_to_dataframe pd (JArr xs) record_path time_zone = pd_DataFrame pd xs"
  by (simp add: json_to_dataframe_def)

lemma json_to_dataframe_no_records:
  assumes "find_record_path data record_path = None \<or> find_record_path data record_path = Some []"
  shows "json_to_dataframe pd (JObj data) record_path time_zone = pd_DataFrame pd [JObj data]"
  using assms by (auto simp: json_to_dataframe_def)

lemma get_table_state:
  "snd (get_table pd net st url record_path time_zone) = st\<lparr>trace := trace st @ [Get url]\<rparr>"
  by (simp add: get_table_def session_get_def split: sum.splits option.splits)

lemma get_table_result:
  "fst (get_table pd net st url record_path time_zone) =
     (case net (session (self st)) (trace st) url of
        Inl e \<Rightarrow> Inl e
      | Inr response \<Rightarrow>
          (case raise_for_status response of
             Some e \<Rightarrow> Inl e
           | None \<Rightarrow>
               (case response_json response of
                  Inl e \<Rightarrow> Inl e
                | Inr body \<Rightarrow> json_to_dataframe pd body record_path time_zone)))"
  by (simp add: get_table_def session_get_def split: sum.splits option.splits)

lemma range_loop_done:
  "end_day < current_date \<Longrightarrow>
   range_loop pd net station_code end_day time_zone current_date all_dfs st =
     Some (Inr all_dfs, st)"
  by (subst range_loop.simps) simp

lemma find_record_path_None:
  "find_record_path data record_path = None \<longleftrightarrow>
     \<not> list_ex (\<lambda>(k, val). is_record_list val) data"
proof
  assume "find_record_path data record_path = None"
  then have "first_record_key data = None"
    by (auto simp: find_record_path_def split: option.splits if_splits)
  then show "\<not> list_ex (\<lambda>(k, val). is_record_list val) data"
    by (simp add: first_record_key_None)
next
  assume no: "\<not> list_ex (\<lambda>(k, val). is_record_list val) data"
  then have none: "first_record_key data = None" by (simp add: first_record_key_None)
  have "\<not> is_record_list val" if "map_of data rp = Some val" for rp val
  proof -
    from that have "(rp, val) \<in> set data" by (rule map_of_SomeD)
    with no show ?thesis by (auto simp: list_ex_iff)
  qed
  with none show "find_record_path data record_path = None"
    by (auto simp: find_record_path_def split: option.splits)
qed

lemma convert_time_columns_returns:
  assumes "library_never_raises pd"
  shows "returns (convert_time_columns pd time_zone cols df)"
proof (induction cols arbitrary: df)
  case Nil
  show ?case by simp
next
  case (Cons col cols)
  from assms obtain df1 where 1: "df_to_datetime pd col df = Inr df1"
    unfolding library_never_raises_def by (meson returnsE)
  from assms obtain df2 where 2: "df_tz_localize pd ''UTC'' col df1 = Inr df2"
    unfolding library_never_raises_def by (meson returnsE)
  show ?case
  proof (cases time_zone)
    case None
    with 1 2 Cons.IH [of df2] show ?thesis by simp
  next
    case (Some tz)
    from assms obtain df3 where "df_tz_convert pd tz col df2 = Inr df3"
      unfolding library_never_raises_def by (meson returnsE)
    with Some 1 2 Cons.IH [of df3] show ?thesis by simp
  qed
qed

lemma set_timestamp_index_returns:
  assumes "library_never_raises pd"
  shows "returns (set_timestamp_index pd df time_zone)"
proof (cases "filter (\<lambda>col. endswith col ''TimeUtc'') (df_columns pd df)")
  case Nil
  then show ?thesis by (simp add: set_timestamp_index_def)
next
  case (Cons first others)
  from assms obtain df' where 1: "convert_time_columns pd time_zone (first # others) df = Inr df'"
    using convert_time_columns_returns by (meson returnsE)
  from assms obtain indexed where 2: "df_set_index pd first df' = Inr indexed"
    unfolding library_never_raises_def by (meson returnsE)
  from assms obtain renamed where 3: "df_rename_axis pd ''timestamp'' indexed = Inr renamed"
    unfolding library_never_raises_def by (meson returnsE)
  from assms have 4: "returns (df_sort_index pd renamed)"
    unfolding library_never_raises_def by blast
  from Cons 1 2 3 4 show ?thesis
    by (simp add: set_timestamp_index_def del: convert_time_columns.simps)
qed

lemma json_to_dataframe_returns:
  assumes "library_never_raises pd"
  shows "returns (json_to_dataframe pd json_data record_path time_zone)"
proof (cases json_data)
  case (JArr xs)
  with assms show ?thesis
    unfolding library_never_raises_def by (simp add: json_to_dataframe_array)
next
  case (JObj data)
  show ?thesis
  proof (cases "find_record_path data record_path = None \<or>
      find_record_path data record_path = Some []")
    case True
    then have "json_to_dataframe pd (JObj data) record_path time_zone =
        pd_DataFrame pd [JObj data]"
      by (rule json_to_dataframe_no_records)
    with assms JObj show ?thesis
      unfolding library_never_raises_def by simp
  next
    case False
    then obtain rp where rp: "find_record_path data record_path = Some rp" "rp \<noteq> []"
      by (cases "find_record_path data record_path") auto
    then obtain records where records: "map_of data rp = Some records"
      using find_record_path_is_key by blast
    from assms obtain df where
      "pd_json_normalize pd (AList.update rp records (flatten_meta data rp)) rp
         (map fst (flatten_meta data rp)) = Inr df"
      unfolding library_never_raises_def by (meson returnsE)
    with rp records JObj set_timestamp_index_returns [OF assms, of df time_zone]
    show ?thesis by (simp add: json_to_dataframe_records)
  qed
qed (simp_all add: json_to_dataframe_def)

lemma example_library_never_raises: "library_never_raises example_library"
  by (simp add: library_never_raises_def example_library_def)

section \<open>Facts about the loop over the dates\<close>





























section \<open>The examples, evaluated\<close>


















section \<open>Record-path discovery\<close>

lemma first_record_key_holds:
  "first_record_key data = Some key \<Longrightarrow> holds_records data key"
  by (induction data rule: first_record_key.induct)
    (auto simp: holds_records_def split: if_splits)

lemma is_first_record_key_Nil: "\<not> is_first_record_key [] key"
  by (simp add: is_first_record_key_def)

lemma is_first_record_key_here:
  assumes "is_record_list val"
  shows "is_first_record_key ((k, val) # items) key \<longleftrightarrow> key = k"
proof
  assume "is_first_record_key ((k, val) # items) key"
  then obtain i where i: "fst (((k, val) # items) ! i) = key"
    and least: "\<forall>j < i. \<not> is_record_list (snd (((k, val) # items) ! j))"
    unfolding is_first_record_key_def by blast
  have "i = 0"
  proof (rule ccontr)
    assume "i \<noteq> 0"
    then have "0 < i" by simp
    with least have "\<not> is_record_list (snd (((k, val) # items) ! 0))" by blast
    with assms show False by simp
  qed
  with i show "key = k" by simp
next
  assume "key = k"
  with assms show "is_first_record_key ((k, val) # items) key"
    unfolding is_first_record_key_def by (intro exI [of _ 0]) simp
qed

lemma is_first_record_key_later:
  assumes "\<not> is_record_list val"
  shows "is_first_record_key ((k, val) # items) key \<longleftrightarrow> is_first_record_key items key"
proof
  assume "is_first_record_key ((k, val) # items) key"
  then obtain i where i: "i < length ((k, val) # items)"
      "fst (((k, val) # items) ! i) = key"
      "is_record_list (snd (((k, val) # items) ! i))"
    and least: "\<forall>j < i. \<not> is_record_list (snd (((k, val) # items) ! j))"
    unfolding is_first_record_key_def by blast
  from assms i(3) obtain i' where i': "i = Suc i'" by (cases i) auto
  have "\<forall>j < i'. \<not> is_record_list (snd (items ! j))"
  proof (intro allI impI)
    fix j assume "j < i'"
    then have "Suc j < i" using i' by simp
    with least have "\<not> is_record_list (snd (((k, val) # items) ! Suc j))" by blast
    then show "\<not> is_record_list (snd (items ! j))" by simp
  qed
  with i i' show "is_first_record_key items key"
    unfolding is_first_record_key_def by (intro exI [of _ i']) simp
next
  assume "is_first_record_key items key"
  then obtain i where i: "i < length items" "fst (items ! i) = key"
      "is_record_list (snd (items ! i))"
    and least: "\<forall>j < i. \<not> is_record_list (snd (items ! j))"
    unfolding is_first_record_key_def by blast
  have "\<forall>j < Suc i. \<not> is_record_list (snd (((k, val) # items) ! j))"
  proof (intro allI impI)
    fix j assume "j < Suc i"
    with assms least show "\<not> is_record_list (snd (((k, val) # items) ! j))"
      by (cases j) auto
  qed
  with i show "is_first_record_key ((k, val) # items) key"
    unfolding is_first_record_key_def by (intro exI [of _ "Suc i"]) simp
qed

lemma first_record_key_first:
  "first_record_key data = Some key \<longleftrightarrow> is_first_record_key data key"
proof (induction data rule: first_record_key.induct)
  case 1
  show ?case by (simp add: is_first_record_key_Nil)
next
  case (2 k val items)
  show ?case
  proof (cases "is_record_list val")
    case True
    then show ?thesis by (auto simp: is_first_record_key_here)
  next
    case False
    with "2.IH" show ?thesis by (simp add: is_first_record_key_later)
  qed
qed

lemma holds_records_lookup:
  assumes "distinct (map fst data)"
  shows "holds_records data key \<longleftrightarrow>
    (\<exists>val. map_of data key = Some val \<and> is_record_list val)"
proof
  assume "holds_records data key"
  then obtain val where "(key, val) \<in> set data" "is_record_list val"
    by (auto simp: holds_records_def list_ex_iff)
  with assms show "\<exists>val. map_of data key = Some val \<and> is_record_list val"
    by auto
next
  assume "\<exists>val. map_of data key = Some val \<and> is_record_list val"
  then obtain val where "map_of data key = Some val" "is_record_list val" by blast
  then show "holds_records data key"
    by (auto simp: holds_records_def list_ex_iff dest: map_of_SomeD)
qed

lemma find_record_path_requested:
  assumes "rp \<noteq> []" and "map_of data rp = Some val" and "is_record_list val"
  shows "find_record_path data (Some rp) = Some rp"
proof -
  from assms(2) have "rp \<in> fst ` set data" by (force dest: map_of_SomeD)
  with assms show ?thesis by (simp add: find_record_path_def)
qed

lemma find_record_path_otherwise:
  assumes "\<not> (\<exists>rp val. record_path = Some rp \<and> rp \<noteq> [] \<and>
             map_of data rp = Some val \<and> is_record_list val)"
  shows "find_record_path data record_path = first_record_key data"
  using assms by (auto simp: find_record_path_def split: option.splits)

lemma find_record_path_holds:
  assumes "distinct (map fst data)" and "find_record_path data record_path = Some key"
  shows "holds_records data key"
proof (cases "\<exists>rp val. record_path = Some rp \<and> rp \<noteq> [] \<and>
         map_of data rp = Some val \<and> is_record_list val")
  case True
  then obtain rp val where rp: "record_path = Some rp" "rp \<noteq> []"
    "map_of data rp = Some val" "is_record_list val" by blast
  then have "find_record_path data record_path = Some rp"
    by (simp add: find_record_path_requested)
  with assms(2) have "key = rp" by simp
  with rp assms(1) show ?thesis by (auto simp: holds_records_lookup)
next
  case False
  then have "find_record_path data record_path = first_record_key data"
    by (rule find_record_path_otherwise)
  with assms(2) show ?thesis by (simp add: first_record_key_holds)
qed

text \<open>
  Claim C1, as the code has it. For an object \<open>data\<close> (a Python \<^verbatim>\<open>dict\<close>, so with
  each key once) and a requested record path that is not the empty string,
  \<open>find_record_path\<close> returns the requested path exactly when it is a key of the object
  whose value is a non-empty list whose first element is an object. When there is no
  such request (none at all, an empty one, or one that is no such key), it returns
  the first key of the object, in key order, whose value is a non-empty list whose
  first element is an object. It returns \<open>None\<close> exactly when no key of the object has
  such a value. An empty requested path counts as no request.
\<close>

theorem find_record_path_spec:
  assumes "distinct (map fst data)"
  shows "(rp \<noteq> [] \<longrightarrow>
            (find_record_path data (Some rp) = Some rp \<longleftrightarrow> holds_records data rp)) \<and>
         (\<not> (\<exists>rp'. record_path = Some rp' \<and> rp' \<noteq> [] \<and> holds_records data rp') \<longrightarrow>
            (\<forall>key. find_record_path data record_path = Some key \<longleftrightarrow>
               is_first_record_key data key)) \<and>
         (find_record_path data record_path = None \<longleftrightarrow>
            \<not> list_ex (\<lambda>(k, val). is_record_list val) data)"
proof (intro conjI impI allI)
  assume "rp \<noteq> []"
  show "find_record_path data (Some rp) = Some rp \<longleftrightarrow> holds_records data rp"
  proof
    assume "find_record_path data (Some rp) = Some rp"
    with assms show "holds_records data rp" by (rule find_record_path_holds)
  next
    assume "holds_records data rp"
    with assms obtain val where "map_of data rp = Some val" "is_record_list val"
      by (auto simp: holds_records_lookup)
    with \<open>rp \<noteq> []\<close> show "find_record_path data (Some rp) = Some rp"
      by (rule find_record_path_requested)
  qed
next
  fix key
  assume "\<not> (\<exists>rp'. record_path = Some rp' \<and> rp' \<noteq> [] \<and> holds_records data rp')"
  with assms have "\<not> (\<exists>rp' val. record_path = Some rp' \<and> rp' \<noteq> [] \<and>
      map_of data rp' = Some val \<and> is_record_list val)"
    by (auto simp: holds_records_lookup)
  then have "find_record_path data record_path = first_record_key data"
    by (rule find_record_path_otherwise)
  then show "find_record_path data record_path = Some key \<longleftrightarrow> is_first_record_key data key"
    by (simp add: first_record_key_first)
next
  show "find_record_path data record_path = None \<longleftrightarrow>
      \<not> list_ex (\<lambda>(k, val). is_record_list val) data"
  proof
    assume none: "find_record_path data record_path = None"
    have "\<not> (\<exists>rp val. record_path = Some rp \<and> rp \<noteq> [] \<and>
        map_of data rp = Some val \<and> is_record_list val)"
    proof
      assume "\<exists>rp val. record_path = Some rp \<and> rp \<noteq> [] \<and>
        map_of data rp = Some val \<and> is_record_list val"
      then obtain rp val where "record_path = Some rp" "rp \<noteq> []"
        "map_of data rp = Some val" "is_record_list val" by blast
      then have "find_record_path data record_path = Some rp"
        by (simp add: find_record_path_requested)
      with none show False by simp
    qed
    then have "find_record_path data record_path = first_record_key data"
      by (rule find_record_path_otherwise)
    with none show "\<not> list_ex (\<lambda>(k, val). is_record_list val) data"
      by (simp add: first_record_key_None)
  next
    assume no: "\<not> list_ex (\<lambda>(k, val). is_record_list val) data"
    show "find_record_path data record_path = None"
    proof (cases "find_record_path data record_path")
      case None
      then show ?thesis .
    next
      case (Some key)
      with assms have "holds_records data key" by (rule find_record_path_holds)
      with no show ?thesis by (auto simp: holds_records_def list_ex_iff)
    qed
  qed
qed

text \<open>
  The theorem at a response of the observations endpoint: the requested path
  \<open>observations\<close> is returned, and without a request it is found as the first key
  that holds records.
\<close>

theorem find_record_path_spec_witness:
  "distinct (map fst observations_body) \<and>
   find_record_path observations_body (Some ''observations'') = Some ''observations'' \<and>
   is_first_record_key observations_body ''observations'' \<and>
   find_record_path observations_body None \<noteq> None"
proof -
  have d: "distinct (map fst observations_body)"
    by (simp add: observations_body_def)
  have h: "holds_records observations_body ''observations''"
    by (simp add: holds_records_def observations_body_def)
  have e: "find_record_path observations_body None = Some ''observations''"
    by (simp add: find_record_path_def observations_body_def)
  have r: "list_ex (\<lambda>(k, val). is_record_list val) observations_body"
    by (simp add: observations_body_def)
  from find_record_path_spec [OF d, of "''observations''" "Some ''observations''"] h
  have 1: "find_record_path observations_body (Some ''observations'') = Some ''observations''"
    by simp
  from find_record_path_spec [OF d, of "''observations''" None] e
  have 2: "is_first_record_key observations_body ''observations''" by auto
  from find_record_path_spec [OF d, of "''observations''" None] r
  have 3: "find_record_path observations_body None \<noteq> None" by blast
  from d 1 2 3 show ?thesis by simp
qed

text \<open>
  Claim C1 as it is written fails for the empty requested path: here \<open>''''\<close> is a key
  whose value is a non-empty list of objects, and the key \<open>a\<close> is returned.
\<close>

theorem find_record_path_empty_request_counterexample:
  "distinct (map fst ([(''a'', JArr [JObj []]), ('''', JArr [JObj []])] :: real dict)) \<and>
   holds_records ([(''a'', JArr [JObj []]), ('''', JArr [JObj []])] :: real dict) '''' \<and>
   find_record_path ([(''a'', JArr [JObj []]), ('''', JArr [JObj []])] :: real dict)
     (Some '''') = Some ''a''"
  by (simp add: holds_records_def find_record_path_def)

section \<open>Metadata flattening\<close>

lemma assign_all_simps [simp]:
  "assign_all [] m = m"
  "assign_all ((k, v) # es) m = assign_all es (AList.update k v m)"
  "assign_all (es @ es') m = assign_all es' (assign_all es m)"
  by (simp_all add: assign_all_def)

lemma flatten_sub_assign:
  "flatten_sub key d m = assign_all (map (\<lambda>(subk, subv). (key @ ''_'' @ subk, subv)) d) m"
  by (induction key d m rule: flatten_sub.induct) simp_all

lemma flatten_loop_assign:
  "flatten_loop data rp m = assign_all (spec_meta_entries data rp) m"
proof (induction data rp m rule: flatten_loop.induct)
  case (1 rp m)
  show ?case by (simp add: spec_meta_entries_def)
next
  case (2 key val items rp m)
  show ?case
  proof (cases "key = rp")
    case True
    with 2 show ?thesis by (simp add: spec_meta_entries_def)
  next
    case False
    with 2 show ?thesis
      by (cases val) (simp_all add: spec_meta_entries_def flatten_sub_assign)
  qed
qed

lemma map_of_assign_all: "map_of (assign_all es m) = map_of (rev es @ m)"
proof (induction es arbitrary: m)
  case Nil
  show ?case by simp
next
  case (Cons e es)
  obtain k v where e: "e = (k, v)" by (cases e)
  have "map_of (assign_all (e # es) m) = map_of (rev es @ AList.update k v m)"
    using Cons.IH by (simp add: e)
  also have "\<dots> = map_of (rev (e # es) @ m)"
    by (simp add: e map_add_def update_conv' fun_eq_iff split: option.splits)
  finally show ?case .
qed

lemma distinct_assign_all:
  "distinct (map fst m) \<Longrightarrow> distinct (map fst (assign_all es m))"
  by (induction es arbitrary: m) (auto simp: distinct_update)

lemma update_new_key: "k \<notin> fst ` set m \<Longrightarrow> AList.update k v m = m @ [(k, v)]"
  by (induction m) auto

lemma assign_all_distinct: "distinct (map fst (m @ es)) \<Longrightarrow> assign_all es m = m @ es"
proof (induction es arbitrary: m)
  case Nil
  show ?case by simp
next
  case (Cons e es)
  obtain k v where e: "e = (k, v)" by (cases e)
  from Cons.prems have new: "k \<notin> fst ` set m" by (auto simp: e)
  from Cons.prems have "distinct (map fst ((m @ [(k, v)]) @ es))" by (simp add: e)
  then have "assign_all es (m @ [(k, v)]) = (m @ [(k, v)]) @ es" by (rule Cons.IH)
  with new show ?case by (simp add: e update_new_key)
qed

lemma flatten_meta_map_of:
  "map_of (flatten_meta data rp) = map_of (rev (spec_meta_entries data rp))"
  by (simp add: flatten_meta_def flatten_loop_assign map_of_assign_all)

lemma flatten_meta_distinct: "distinct (map fst (flatten_meta data rp))"
  by (simp add: flatten_meta_def flatten_loop_assign distinct_assign_all)

lemma flatten_meta_no_collision:
  "distinct (map fst (spec_meta_entries data rp)) \<Longrightarrow>
   flatten_meta data rp = spec_meta_entries data rp"
  using assign_all_distinct [of "[]" "spec_meta_entries data rp"]
  by (simp add: flatten_meta_def flatten_loop_assign)

text \<open>
  Claim C2, as the code has it. For an object \<open>data\<close> and a record path \<open>rp\<close>, the names
  of \<open>flatten_meta data rp\<close> are the names that the specification lists for the top-level
  keys other than \<open>rp\<close> (\<open>key_subkey\<close> for each subkey of an object, the key itself
  otherwise) and no others, each once; the value under a name is the value of the last
  entry of the specification's list that has this name; and where no two entries of
  that list have the same name, \<open>flatten_meta\<close> returns exactly that list, in order.
  When \<open>rp\<close> is the record path that \<open>json_to_dataframe\<close> finds, the table is what
  \<^verbatim>\<open>pd.json_normalize\<close> makes of the records under \<open>rp\<close> with the names of the flattened
  metadata as its \<^verbatim>\<open>meta\<close> fields, from a \<^verbatim>\<open>dict\<close> that holds every flattened entry
  whose name is not \<open>rp\<close> with its value, followed by the timestamp indexing.
\<close>

theorem flatten_meta_spec:
  "map_of (flatten_meta data rp) = map_of (rev (spec_meta_entries data rp)) \<and>
   distinct (map fst (flatten_meta data rp)) \<and>
   (distinct (map fst (spec_meta_entries data rp)) \<longrightarrow>
      flatten_meta data rp = spec_meta_entries data rp) \<and>
   (find_record_path data record_path = Some rp \<and> rp \<noteq> [] \<longrightarrow>
      (\<exists>records. map_of data rp = Some records \<and>
         json_to_dataframe pd (JObj data) record_path time_zone =
           and_then
             (pd_json_normalize pd (AList.update rp records (flatten_meta data rp)) rp
                (map fst (flatten_meta data rp)))
             (\<lambda>df. set_timestamp_index pd df time_zone) \<and>
         (\<forall>(name, v) \<in> set (flatten_meta data rp). name \<noteq> rp \<longrightarrow>
            map_of (AList.update rp records (flatten_meta data rp)) name = Some v)))"
proof (intro conjI impI)
  show "map_of (flatten_meta data rp) = map_of (rev (spec_meta_entries data rp))"
    by (rule flatten_meta_map_of)
  show "distinct (map fst (flatten_meta data rp))"
    by (rule flatten_meta_distinct)
  show "flatten_meta data rp = spec_meta_entries data rp"
    if "distinct (map fst (spec_meta_entries data rp))"
    using that by (rule flatten_meta_no_collision)
  show "\<exists>records. map_of data rp = Some records \<and>
         json_to_dataframe pd (JObj data) record_path time_zone =
           and_then
             (pd_json_normalize pd (AList.update rp records (flatten_meta data rp)) rp
                (map fst (flatten_meta data rp)))
             (\<lambda>df. set_timestamp_index pd df time_zone) \<and>
         (\<forall>(name, v) \<in> set (flatten_meta data rp). name \<noteq> rp \<longrightarrow>
            map_of (AList.update rp records (flatten_meta data rp)) name = Some v)"
    if found: "find_record_path data record_path = Some rp \<and> rp \<noteq> []"
  proof -
    from found obtain records where records: "map_of data rp = Some records"
      using find_record_path_is_key by blast
    have call: "json_to_dataframe pd (JObj data) record_path time_zone =
           and_then
             (pd_json_normalize pd (AList.update rp records (flatten_meta data rp)) rp
                (map fst (flatten_meta data rp)))
             (\<lambda>df. set_timestamp_index pd df time_zone)"
      using found records by (simp add: json_to_dataframe_records)
    have held: "\<forall>(name, v) \<in> set (flatten_meta data rp). name \<noteq> rp \<longrightarrow>
            map_of (AList.update rp records (flatten_meta data rp)) name = Some v"
      using flatten_meta_distinct [of data rp] by (auto simp: update_conv')
    from records call held show ?thesis by blast
  qed
qed

text \<open>
  The theorem at the body of the observations endpoint: the station's two fields become
  the metadata \<open>station_code\<close> and \<open>station_name\<close> of the records under
  \<open>observations\<close>.
\<close>

theorem flatten_meta_spec_witness:
  "flatten_meta observations_body ''observations'' =
     [(''station_code'', JStr ''vilniaus-ams''), (''station_name'', JStr ''Vilnius'')] \<and>
   json_to_dataframe example_library (JObj observations_body) (Some ''observations'')
       (Some TIME_ZONE) =
     and_then
       (pd_json_normalize example_library
          [(''station_code'', JStr ''vilniaus-ams''), (''station_name'', JStr ''Vilnius''),
           (''observations'',
            JArr [JObj [(''observationTimeUtc'', JStr ''2024-01-01 00:00:00''),
                        (''airTemperature'', JInt 2)]])]
          ''observations'' [''station_code'', ''station_name''])
       (\<lambda>df. set_timestamp_index example_library df (Some TIME_ZONE))"
proof -
  note spec = flatten_meta_spec [of observations_body "''observations''"
      "Some ''observations''" example_library "Some TIME_ZONE"]
  have entries: "spec_meta_entries observations_body ''observations'' =
      [(''station_code'', JStr ''vilniaus-ams''), (''station_name'', JStr ''Vilnius'')]"
    by (simp add: spec_meta_entries_def observations_body_def)
  with spec have meta: "flatten_meta observations_body ''observations'' =
      [(''station_code'', JStr ''vilniaus-ams''), (''station_name'', JStr ''Vilnius'')]"
    by simp
  have found: "find_record_path observations_body (Some ''observations'') =
      Some ''observations''"
    by (simp add: find_record_path_def observations_body_def)
  have records: "map_of observations_body ''observations'' =
      Some (JArr [JObj [(''observationTimeUtc'', JStr ''2024-01-01 00:00:00''),
                        (''airTemperature'', JInt 2)]])"
    by (simp add: observations_body_def)
  from spec found records meta
  have "json_to_dataframe example_library (JObj observations_body) (Some ''observations'')
       (Some TIME_ZONE) =
     and_then
       (pd_json_normalize example_library
          (AList.update ''observations''
             (JArr [JObj [(''observationTimeUtc'', JStr ''2024-01-01 00:00:00''),
                          (''airTemperature'', JInt 2)]])
             [(''station_code'', JStr ''vilniaus-ams''), (''station_name'', JStr ''Vilnius'')])
          ''observations'' [''station_code'', ''station_name''])
       (\<lambda>df. set_timestamp_index example_library df (Some TIME_ZONE))"
    by auto
  with meta show ?thesis by simp
qed

text \<open>
  Claim C2 as it is written fails where two entries get the same name: the key \<open>a_b\<close>
  and the subkey \<open>b\<close> of the key \<open>a\<close> both give \<open>a_b\<close>, the specification lists two
  entries, and the mapping has one, which does not carry the value of the key \<open>a_b\<close>.
\<close>

theorem flatten_meta_collision_counterexample:
  "spec_meta_entries
     ([(''a_b'', JInt 1), (''a'', JObj [(''b'', JInt 2)]),
       (''observations'', JArr [JObj []])] :: real dict) ''observations'' =
     [(''a_b'', JInt 1), (''a_b'', JInt 2)] \<and>
   flatten_meta
     ([(''a_b'', JInt 1), (''a'', JObj [(''b'', JInt 2)]),
       (''observations'', JArr [JObj []])] :: real dict) ''observations'' =
     [(''a_b'', JInt 2)]"
  by (simp add: spec_meta_entries_def flatten_meta_def)

section \<open>Timestamp indexing\<close>

lemma endswith_iff: "endswith s suffix \<longleftrightarrow> (\<exists>prefix. s = prefix @ suffix)"
proof
  assume "endswith s suffix"
  then have "s = take (length s - length suffix) s @ suffix"
    by (metis append_take_drop_id endswith_def)
  then show "\<exists>prefix. s = prefix @ suffix" ..
next
  assume "\<exists>prefix. s = prefix @ suffix"
  then show "endswith s suffix" by (auto simp: endswith_def)
qed

lemma convert_one_column:
  "convert_time_columns pd time_zone (col # cols) df =
     and_then (spec_localize_column pd time_zone col df) (convert_time_columns pd time_zone cols)"
  by (simp add: spec_localize_column_def split: sum.splits option.splits)

lemma fold_localize:
  "fold (\<lambda>col r. and_then r (spec_localize_column pd time_zone col)) cols r =
     and_then r (convert_time_columns pd time_zone cols)"
proof (induction cols arbitrary: r)
  case Nil
  show ?case by (cases r) simp_all
next
  case (Cons col cols)
  show ?case
    by (cases r) (simp_all add: Cons.IH convert_one_column del: convert_time_columns.simps)
qed

lemma set_timestamp_index_none:
  assumes "filter (\<lambda>col. endswith col ''TimeUtc'') (df_columns pd df) = []"
  shows "set_timestamp_index pd df time_zone = Inr df"
  using assms by (simp add: set_timestamp_index_def)

lemma set_timestamp_index_some:
  assumes "filter (\<lambda>col. endswith col ''TimeUtc'') (df_columns pd df) \<noteq> []"
  shows "set_timestamp_index pd df time_zone = spec_timestamp_index pd df time_zone"
proof -
  from assms obtain first others
    where cols: "filter (\<lambda>col. endswith col ''TimeUtc'') (df_columns pd df) = first # others"
    by (cases "filter (\<lambda>col. endswith col ''TimeUtc'') (df_columns pd df)") auto
  have "fold (\<lambda>col r. and_then r (spec_localize_column pd time_zone col))
          (first # others) (Inr df) =
        convert_time_columns pd time_zone (first # others) df"
    by (simp only: fold_localize and_then_simps)
  with cols show ?thesis
    by (simp add: set_timestamp_index_def spec_timestamp_index_def
        del: convert_time_columns.simps)
qed

text \<open>
  Claim C3, as the code has it. Timestamp indexing is applied to the table of records
  of a JSON object with a record path, and to no other response. A timestamp column is
  a column whose name ends with \<open>TimeUtc\<close>. When the table has one, every timestamp
  column is converted, in column order (parsed, localized as UTC and, when a timezone
  is given, converted to it), the first timestamp column becomes the index, the index is
  renamed \<open>timestamp\<close> and the rows are sorted by it; an exception of a library call
  ends the normalization. When the table has no timestamp column it is returned as it
  is. A JSON array, and an object in which no record path is found, are made a table
  with no timestamp indexing.
\<close>

theorem set_timestamp_index_spec:
  "(endswith col ''TimeUtc'' \<longleftrightarrow> (\<exists>prefix. col = prefix @ ''TimeUtc'')) \<and>
   (filter (\<lambda>col. endswith col ''TimeUtc'') (df_columns pd df) \<noteq> [] \<longrightarrow>
      set_timestamp_index pd df time_zone = spec_timestamp_index pd df time_zone) \<and>
   (filter (\<lambda>col. endswith col ''TimeUtc'') (df_columns pd df) = [] \<longrightarrow>
      set_timestamp_index pd df time_zone = Inr df) \<and>
   (find_record_path data record_path = Some rp \<and> rp \<noteq> [] \<longrightarrow>
      (\<exists>records. map_of data rp = Some records \<and>
         json_to_dataframe pd (JObj data) record_path time_zone =
           and_then
             (pd_json_normalize pd (AList.update rp records (flatten_meta data rp)) rp
                (map fst (flatten_meta data rp)))
             (\<lambda>df. set_timestamp_index pd df time_zone))) \<and>
   (find_record_path data record_path = None \<or> find_record_path data record_path = Some [] \<longrightarrow>
      json_to_dataframe pd (JObj data) record_path time_zone = pd_DataFrame pd [JObj data]) \<and>
   json_to_dataframe pd (JArr xs) record_path time_zone = pd_DataFrame pd xs"
proof (intro conjI impI)
  show "endswith col ''TimeUtc'' \<longleftrightarrow> (\<exists>prefix. col = prefix @ ''TimeUtc'')"
    by (rule endswith_iff)
  show "set_timestamp_index pd df time_zone = spec_timestamp_index pd df time_zone"
    if "filter (\<lambda>col. endswith col ''TimeUtc'') (df_columns pd df) \<noteq> []"
    using that by (rule set_timestamp_index_some)
  show "set_timestamp_index pd df time_zone = Inr df"
    if "filter (\<lambda>col. endswith col ''TimeUtc'') (df_columns pd df) = []"
    using that by (rule set_timestamp_index_none)
  show "\<exists>records. map_of data rp = Some records \<and>
         json_to_dataframe pd (JObj data) record_path time_zone =
           and_then
             (pd_json_normalize pd (AList.update rp records (flatten_meta data rp)) rp
                (map fst (flatten_meta data rp)))
             (\<lambda>df. set_timestamp_index pd df time_zone)"
    if found: "find_record_path data record_path = Some rp \<and> rp \<noteq> []"
  proof -
    from found obtain records where "map_of data rp = Some records"
      using find_record_path_is_key by blast
    with found show ?thesis by (auto simp: json_to_dataframe_records)
  qed
  show "json_to_dataframe pd (JObj data) record_path time_zone = pd_DataFrame pd [JObj data]"
    if "find_record_path data record_path = None \<or> find_record_path data record_path = Some []"
    using that by (rule json_to_dataframe_no_records)
  show "json_to_dataframe pd (JArr xs) record_path time_zone = pd_DataFrame pd xs"
    by (rule json_to_dataframe_array)
qed

text \<open>
  The theorem at the body of the observations endpoint, with the library of the
  examples: the one timestamp column \<open>observationTimeUtc\<close> is parsed, localized as UTC,
  converted to the time zone of Vilnius and made the sorted index \<open>timestamp\<close>.
\<close>

theorem set_timestamp_index_spec_witness:
  "set_timestamp_index example_library
     (Json_normalize
        [(''station_code'', JStr ''vilniaus-ams''), (''station_name'', JStr ''Vilnius''),
         (''observations'',
          JArr [JObj [(''observationTimeUtc'', JStr ''2024-01-01 00:00:00''),
                      (''airTemperature'', JInt 2)]])]
        ''observations'' [''station_code'', ''station_name''] :: real frame)
     (Some TIME_ZONE) =
   Inr (Sort_index (Rename_axis ''timestamp'' (Set_index ''observationTimeUtc''
     (Tz_convert (timezone ''Europe/Vilnius'') ''observationTimeUtc''
       (Tz_localize ''UTC'' ''observationTimeUtc''
         (To_datetime ''observationTimeUtc''
           (Json_normalize
              [(''station_code'', JStr ''vilniaus-ams''), (''station_name'', JStr ''Vilnius''),
               (''observations'',
                JArr [JObj [(''observationTimeUtc'', JStr ''2024-01-01 00:00:00''),
                            (''airTemperature'', JInt 2)]])]
              ''observations'' [''station_code'', ''station_name'']))))))) \<and>
   set_timestamp_index example_library (DataFrame [JObj [(''code'', JStr ''vilniaus-ams'')]] :: real frame)
     (Some TIME_ZONE) =
   Inr (DataFrame [JObj [(''code'', JStr ''vilniaus-ams'')]]) \<and>
   json_to_dataframe example_library (JObj [(''code'', JStr ''vilniaus-ams'')] :: real json) None
     (Some TIME_ZONE) =
   Inr (DataFrame [JObj [(''code'', JStr ''vilniaus-ams'')]])"
proof -
  let ?records = "Json_normalize
        [(''station_code'', JStr ''vilniaus-ams''), (''station_name'', JStr ''Vilnius''),
         (''observations'',
          JArr [JObj [(''observationTimeUtc'', JStr ''2024-01-01 00:00:00''),
                      (''airTemperature'', JInt 2)]])]
        ''observations'' [''station_code'', ''station_name''] :: real frame"
  let ?station = "[(''code'', JStr ''vilniaus-ams'')] :: real dict"
  have cols: "filter (\<lambda>col. endswith col ''TimeUtc'') (df_columns example_library ?records) =
      [''observationTimeUtc'']"
    by (simp add: example_library_def endswith_def)
  then have "filter (\<lambda>col. endswith col ''TimeUtc'') (df_columns example_library ?records) \<noteq> []"
    by simp
  with set_timestamp_index_spec [of _ example_library ?records "Some TIME_ZONE"]
  have "set_timestamp_index example_library ?records (Some TIME_ZONE) =
      spec_timestamp_index example_library ?records (Some TIME_ZONE)"
    by blast
  also have "\<dots> = Inr (Sort_index (Rename_axis ''timestamp'' (Set_index ''observationTimeUtc''
     (Tz_convert (timezone ''Europe/Vilnius'') ''observationTimeUtc''
       (Tz_localize ''UTC'' ''observationTimeUtc''
         (To_datetime ''observationTimeUtc'' ?records))))))"
    unfolding spec_timestamp_index_def cols
    by (simp add: spec_localize_column_def example_library_def TIME_ZONE_def)
  finally have 1: "set_timestamp_index example_library ?records (Some TIME_ZONE) =
      Inr (Sort_index (Rename_axis ''timestamp'' (Set_index ''observationTimeUtc''
     (Tz_convert (timezone ''Europe/Vilnius'') ''observationTimeUtc''
       (Tz_localize ''UTC'' ''observationTimeUtc''
         (To_datetime ''observationTimeUtc'' ?records))))))" .
  have "filter (\<lambda>col. endswith col ''TimeUtc'')
      (df_columns example_library (DataFrame [JObj ?station])) = []"
    by (simp add: example_library_def endswith_def)
  with set_timestamp_index_spec [of _ example_library "DataFrame [JObj ?station]" "Some TIME_ZONE"]
  have 2: "set_timestamp_index example_library (DataFrame [JObj ?station]) (Some TIME_ZONE) =
      Inr (DataFrame [JObj ?station])"
    by blast
  have "find_record_path ?station None = None"
    by (simp add: find_record_path_def)
  with set_timestamp_index_spec [of _ example_library _ _ ?station None]
  have "json_to_dataframe example_library (JObj ?station) None (Some TIME_ZONE) =
      pd_DataFrame example_library [JObj ?station]"
    by blast
  then have 3: "json_to_dataframe example_library (JObj ?station) None (Some TIME_ZONE) =
      Inr (DataFrame [JObj ?station])"
    by (simp add: example_library_def)
  from 1 2 3 show ?thesis by simp
qed

text \<open>
  Claim C3 as it is written fails for a JSON array: its table has the timestamp column
  \<open>observationTimeUtc\<close>, and it is returned as \<^verbatim>\<open>pd.DataFrame\<close> made it, with no column
  converted and no index set.
\<close>

theorem json_array_not_indexed_counterexample:
  "json_to_dataframe example_library
     (JArr [JObj [(''observationTimeUtc'', JStr ''2024-01-01 00:00:00'')]] :: real json)
     None (Some TIME_ZONE) =
     Inr (DataFrame [JObj [(''observationTimeUtc'', JStr ''2024-01-01 00:00:00'')]]) \<and>
   filter (\<lambda>col. endswith col ''TimeUtc'')
     (df_columns example_library
        (DataFrame [JObj [(''observationTimeUtc'', JStr ''2024-01-01 00:00:00'')]] :: real frame)) =
     [''observationTimeUtc'']"
  by (simp add: json_to_dataframe_def example_library_def endswith_def)

section \<open>Normalization over the shapes of JSON\<close>

lemma convert_time_columns_raises:
  "convert_time_columns pd time_zone cols df = Inl e \<Longrightarrow> raised_by_library pd e"
proof (induction cols arbitrary: df)
  case Nil
  then show ?case by simp
next
  case (Cons col cols)
  show ?case
  proof (cases "df_to_datetime pd col df")
    case (Inl e1)
    with Cons.prems have "df_to_datetime pd col df = Inl e" by simp
    then show ?thesis unfolding raised_by_library_def by blast
  next
    case parsed: (Inr df1)
    show ?thesis
    proof (cases "df_tz_localize pd ''UTC'' col df1")
      case (Inl e2)
      with Cons.prems parsed have "df_tz_localize pd ''UTC'' col df1 = Inl e" by simp
      then show ?thesis unfolding raised_by_library_def by blast
    next
      case utc: (Inr df2)
      show ?thesis
      proof (cases time_zone)
        case None
        with Cons.prems parsed utc have "convert_time_columns pd time_zone cols df2 = Inl e"
          by simp
        then show ?thesis by (rule Cons.IH)
      next
        case (Some tz)
        show ?thesis
        proof (cases "df_tz_convert pd tz col df2")
          case (Inl e3)
          with Cons.prems parsed utc Some have "df_tz_convert pd tz col df2 = Inl e" by simp
          then show ?thesis unfolding raised_by_library_def by blast
        next
          case (Inr df3)
          with Cons.prems parsed utc Some
          have "convert_time_columns pd time_zone cols df3 = Inl e" by simp
          then show ?thesis by (rule Cons.IH)
        qed
      qed
    qed
  qed
qed

lemma and_then_raises:
  assumes "and_then r f = Inl e"
  shows "r = Inl e \<or> (\<exists>x. r = Inr x \<and> f x = Inl e)"
  using assms by (cases r) simp_all

lemma set_timestamp_index_raises:
  assumes "set_timestamp_index pd df time_zone = Inl e"
  shows "raised_by_library pd e"
proof (cases "filter (\<lambda>col. endswith col ''TimeUtc'') (df_columns pd df)")
  case Nil
  with assms show ?thesis by (simp add: set_timestamp_index_def)
next
  case (Cons first others)
  with assms have chain: "and_then (convert_time_columns pd time_zone (first # others) df)
      (\<lambda>df'. and_then (df_set_index pd first df')
        (\<lambda>indexed. and_then (df_rename_axis pd ''timestamp'' indexed) (df_sort_index pd))) =
      Inl e"
    by (simp add: set_timestamp_index_def del: convert_time_columns.simps)
  from and_then_raises [OF chain] show ?thesis
  proof (elim disjE exE conjE)
    assume "convert_time_columns pd time_zone (first # others) df = Inl e"
    then show ?thesis by (rule convert_time_columns_raises)
  next
    fix df'
    assume "and_then (df_set_index pd first df')
        (\<lambda>indexed. and_then (df_rename_axis pd ''timestamp'' indexed) (df_sort_index pd)) =
        Inl e"
    from and_then_raises [OF this] show ?thesis
    proof (elim disjE exE conjE)
      assume "df_set_index pd first df' = Inl e"
      then show ?thesis unfolding raised_by_library_def by blast
    next
      fix indexed
      assume "and_then (df_rename_axis pd ''timestamp'' indexed) (df_sort_index pd) = Inl e"
      from and_then_raises [OF this] show ?thesis
        unfolding raised_by_library_def by blast
    qed
  qed
qed

lemma json_to_dataframe_raises:
  assumes "json_to_dataframe pd json_data record_path time_zone = Inl e"
  shows "raised_by_library pd e"
proof (cases json_data)
  case (JArr xs)
  with assms have "pd_DataFrame pd xs = Inl e" by (simp add: json_to_dataframe_array)
  then show ?thesis unfolding raised_by_library_def by blast
next
  case (JObj data)
  show ?thesis
  proof (cases "find_record_path data record_path = None \<or>
      find_record_path data record_path = Some []")
    case True
    then have "json_to_dataframe pd (JObj data) record_path time_zone =
        pd_DataFrame pd [JObj data]"
      by (rule json_to_dataframe_no_records)
    with assms JObj have "pd_DataFrame pd [JObj data] = Inl e" by simp
    then show ?thesis unfolding raised_by_library_def by blast
  next
    case False
    then obtain rp where rp: "find_record_path data record_path = Some rp" "rp \<noteq> []"
      by (cases "find_record_path data record_path") auto
    then obtain records where records: "map_of data rp = Some records"
      using find_record_path_is_key by blast
    from assms JObj rp records
    have "and_then
        (pd_json_normalize pd (AList.update rp records (flatten_meta data rp)) rp
           (map fst (flatten_meta data rp)))
        (\<lambda>df. set_timestamp_index pd df time_zone) = Inl e"
      by (simp add: json_to_dataframe_records)
    from and_then_raises [OF this] show ?thesis
    proof (elim disjE exE conjE)
      assume "pd_json_normalize pd (AList.update rp records (flatten_meta data rp)) rp
           (map fst (flatten_meta data rp)) = Inl e"
      then show ?thesis unfolding raised_by_library_def by blast
    next
      fix df
      assume "set_timestamp_index pd df time_zone = Inl e"
      then show ?thesis by (rule set_timestamp_index_raises)
    qed
  qed
qed (use assms in \<open>simp_all add: json_to_dataframe_def\<close>)

lemma raising_library_array:
  "json_to_dataframe raising_library (JArr [JObj [(''a'', JInt 1)], JInt 2]) None
     (Some TIME_ZONE) = Inl (LibraryError ''AttributeError'')"
  by (simp add: json_to_dataframe_array raising_library_def)

lemma raising_library_conflict:
  "json_to_dataframe raising_library
     (JObj [(''name'', JStr ''x''), (''observations'', JArr [JObj [(''name'', JStr ''y'')]])])
     None (Some TIME_ZONE) = Inl (LibraryError ''ValueError'')"
  by (simp add: json_to_dataframe_def find_record_path_def flatten_meta_def
      raising_library_def)

text \<open>
  Claim C9, as the code has it. \<open>json_to_dataframe\<close> has a branch for every JSON value
  and raises no exception of its own: an exception that it raises is one that a call
  of \<^verbatim>\<open>pandas\<close> raised, and with a library of which no call raises it returns a table
  for every JSON value, every requested record path and every time zone. A JSON array
  gives what \<^verbatim>\<open>pd.DataFrame\<close> makes of the array itself, a table or an exception; a
  JSON object in which no key holds a non-empty list of objects gives what
  \<^verbatim>\<open>pd.DataFrame\<close> makes of the list of this one object; any other JSON value (a
  string, a number, a boolean, null) gives \<^verbatim>\<open>pd.DataFrame()\<close>, the empty table.
\<close>

theorem json_to_dataframe_shapes:
  "json_to_dataframe pd (JArr xs) record_path time_zone = pd_DataFrame pd xs \<and>
   (\<not> list_ex (\<lambda>(k, val). is_record_list val) data \<longrightarrow>
      json_to_dataframe pd (JObj data) record_path time_zone = pd_DataFrame pd [JObj data]) \<and>
   json_to_dataframe pd JNull record_path time_zone = Inr (pd_DataFrame_empty pd) \<and>
   json_to_dataframe pd (JBool b) record_path time_zone = Inr (pd_DataFrame_empty pd) \<and>
   json_to_dataframe pd (JInt i) record_path time_zone = Inr (pd_DataFrame_empty pd) \<and>
   json_to_dataframe pd (JFloat x) record_path time_zone = Inr (pd_DataFrame_empty pd) \<and>
   json_to_dataframe pd (JStr s) record_path time_zone = Inr (pd_DataFrame_empty pd) \<and>
   (json_to_dataframe pd json_data record_path time_zone = Inl e \<longrightarrow>
      raised_by_library pd e) \<and>
   (library_never_raises pd \<longrightarrow>
      (\<exists>table. json_to_dataframe pd json_data record_path time_zone = Inr table))"
proof (intro conjI impI)
  show "json_to_dataframe pd (JArr xs) record_path time_zone = pd_DataFrame pd xs"
    by (rule json_to_dataframe_array)
  show "json_to_dataframe pd (JObj data) record_path time_zone = pd_DataFrame pd [JObj data]"
    if "\<not> list_ex (\<lambda>(k, val). is_record_list val) data"
  proof -
    from that have "find_record_path data record_path = None"
      by (simp add: find_record_path_None)
    then show ?thesis by (simp add: json_to_dataframe_no_records)
  qed
  show "raised_by_library pd e"
    if "json_to_dataframe pd json_data record_path time_zone = Inl e"
    using that by (rule json_to_dataframe_raises)
  show "\<exists>table. json_to_dataframe pd json_data record_path time_zone = Inr table"
    if "library_never_raises pd"
    using json_to_dataframe_returns [OF that, of json_data record_path time_zone]
    by (meson returnsE)
qed (simp_all add: json_to_dataframe_def)

text \<open>
  The theorem at an object with no list of records and at the body of the observations
  endpoint, with the library of the examples, of which no call raises; and at an array
  of an object and a number with the library that raises: the exception of the
  normalization is one of the library.
\<close>

theorem json_to_dataframe_shapes_witness:
  "library_never_raises example_library \<and>
   json_to_dataframe example_library (JObj [(''code'', JStr ''vilniaus-ams'')])
     None (Some TIME_ZONE) =
     Inr (DataFrame [JObj [(''code'', JStr ''vilniaus-ams'')]]) \<and>
   returns (json_to_dataframe example_library (JObj observations_body)
     (Some ''observations'') (Some TIME_ZONE)) \<and>
   json_to_dataframe raising_library (JArr [JObj [(''a'', JInt 1)], JInt 2]) None
     (Some TIME_ZONE) = Inl (LibraryError ''AttributeError'') \<and>
   raised_by_library raising_library (LibraryError ''AttributeError'')"
proof -
  let ?station = "[(''code'', JStr ''vilniaus-ams'')] :: real dict"
  have lib: "library_never_raises example_library"
    by (rule example_library_never_raises)
  have "\<not> list_ex (\<lambda>(k, val). is_record_list val) ?station" by simp
  with json_to_dataframe_shapes [where pd = example_library and record_path = None
      and time_zone = "Some TIME_ZONE" and data = ?station]
  have "json_to_dataframe example_library (JObj ?station) None (Some TIME_ZONE) =
      pd_DataFrame example_library [JObj ?station]"
    by blast
  then have 1: "json_to_dataframe example_library (JObj ?station) None (Some TIME_ZONE) =
      Inr (DataFrame [JObj ?station])"
    by (simp add: example_library_def)
  from lib json_to_dataframe_shapes [where pd = example_library
      and record_path = "Some ''observations''" and time_zone = "Some TIME_ZONE"
      and json_data = "JObj observations_body"]
  have "\<exists>table. json_to_dataframe example_library (JObj observations_body)
     (Some ''observations'') (Some TIME_ZONE) = Inr table"
    by blast
  then have 2: "returns (json_to_dataframe example_library (JObj observations_body)
     (Some ''observations'') (Some TIME_ZONE))"
    by auto
  note 3 = raising_library_array
  from 3 json_to_dataframe_shapes [where pd = raising_library and record_path = None
      and time_zone = "Some TIME_ZONE" and json_data = "JArr [JObj [(''a'', JInt 1)], JInt 2]"
      and e = "LibraryError ''AttributeError''"]
  have 4: "raised_by_library raising_library (LibraryError ''AttributeError'')"
    by blast
  from lib 1 2 3 4 show ?thesis by (intro conjI)
qed

text \<open>
  Claim C9 as it is written fails on shape alone where a call of \<^verbatim>\<open>pandas\<close> does: for
  an array of an object and a number \<^verbatim>\<open>pd.DataFrame\<close> raises, and for an object whose
  records have a key that is also a metadata name \<^verbatim>\<open>pd.json_normalize\<close> raises; the
  normalization catches neither, and there is no table.
\<close>

theorem json_to_dataframe_raises_counterexample:
  "json_to_dataframe raising_library (JArr [JObj [(''a'', JInt 1)], JInt 2]) None
     (Some TIME_ZONE) = Inl (LibraryError ''AttributeError'') \<and>
   json_to_dataframe raising_library
     (JObj [(''name'', JStr ''x''), (''observations'', JArr [JObj [(''name'', JStr ''y'')]])])
     None (Some TIME_ZONE) = Inl (LibraryError ''ValueError'')"
  using raising_library_array raising_library_conflict by (intro conjI)

section \<open>The empty range\<close>

text \<open>
  Claim C10. When the date of \<open>start_date\<close> is after the date of \<open>end_date\<close>,
  \<open>get_station_historical_observations_range\<close> returns \<^verbatim>\<open>pd.DataFrame()\<close>, the empty
  table, and leaves the state as it was: the trace has no new event, so no request
  was made.
\<close>

theorem empty_range_no_request:
  assumes "date end_date < date start_date"
  shows "get_station_historical_observations_range pd net st station_code start_date end_date
           time_zone = Some (Inr (pd_DataFrame_empty pd), st)"
  using assms
  by (simp add: get_station_historical_observations_range_def range_loop_done)

text \<open>
  The theorem for the range from 2 January 2024 back to 1 January 2024, against the
  server of the examples.
\<close>

theorem empty_range_no_request_witness:
  "date \<lparr>date = 738886, microsecond_of_day = 0\<rparr> <
     date \<lparr>date = 738887, microsecond_of_day = 0\<rparr> \<and>
   get_station_historical_observations_range example_library example_server new_client
     ''vilniaus-ams'' \<lparr>date = 738887, microsecond_of_day = 0\<rparr>
     \<lparr>date = 738886, microsecond_of_day = 0\<rparr> None =
     Some (Inr DataFrame_empty, new_client)"
proof -
  have lt: "date \<lparr>date = 738886, microsecond_of_day = 0\<rparr> <
     date \<lparr>date = 738887, microsecond_of_day = 0\<rparr>"
    by simp
  from empty_range_no_request [OF lt, of example_library example_server new_client
      "''vilniaus-ams''" None]
  have "get_station_historical_observations_range example_library example_server new_client
     ''vilniaus-ams'' \<lparr>date = 738887, microsecond_of_day = 0\<rparr>
     \<lparr>date = 738886, microsecond_of_day = 0\<rparr> None =
     Some (Inr (pd_DataFrame_empty example_library), new_client)" .
  with lt show ?thesis by (simp add: example_library_def)
qed

section \<open>Error propagation in the endpoint methods\<close>

lemma get_table_propagates:
  "propagates_errors pd net st url record_path time_zone
     (get_table pd net st url record_path time_zone)"
  unfolding propagates_errors_def
  by (auto simp: get_table_state get_table_result split: sum.splits option.splits)

lemma propagates_errors_status:
  assumes "propagates_errors pd net st url record_path time_zone out"
    and "net (session (self st)) (trace st) url = Inr response"
    and "raise_for_status response = Some e"
  shows "fst out = Inl e" and "trace (snd out) = trace st @ [Get url]"
  using assms unfolding propagates_errors_def by blast+

lemma propagates_errors_body:
  assumes "propagates_errors pd net st url record_path time_zone out"
    and "net (session (self st)) (trace st) url = Inr response"
    and "raise_for_status response = None"
    and "response_json response = Inr body"
  shows "fst out = json_to_dataframe pd body record_path time_zone"
  using assms unfolding propagates_errors_def by blast

text \<open>
  Claim C6. Each of the eight endpoint methods makes one request and no other event.
  When \<^verbatim>\<open>raise_for_status()\<close> raises for the response (the status is not a success), the
  method raises this HTTP error and returns no table; so does an exception of the
  request, of \<^verbatim>\<open>response.json()\<close> or of the normalization. A table is returned only for
  a response that passes the status check, and it is the normalization of the parsed
  JSON body. There is no retry, no fallback and no default value.
\<close>

theorem endpoint_methods_propagate_errors:
  "propagates_errors pd net st (BASE_URL @ ''/places'') None (Some TIME_ZONE)
     (get_places pd net st) \<and>
   propagates_errors pd net st (BASE_URL @ ''/places/'' @ place_code) None (Some TIME_ZONE)
     (get_place_info pd net st place_code) \<and>
   propagates_errors pd net st (BASE_URL @ ''/places/'' @ place_code @ ''/forecasts'') None
     (Some TIME_ZONE) (get_place_forecasts pd net st place_code) \<and>
   propagates_errors pd net st
     (BASE_URL @ ''/places/'' @ place_code @ ''/forecasts/'' @
        or_default ''long-term'' forecast_type)
     (Some ''forecastTimestamps'') (or_default (Some TIME_ZONE) time_zone)
     (get_place_forecast_by_type pd net st place_code forecast_type time_zone) \<and>
   propagates_errors pd net st (BASE_URL @ ''/stations'') None (Some TIME_ZONE)
     (get_stations pd net st) \<and>
   propagates_errors pd net st (BASE_URL @ ''/stations/'' @ station_code) None (Some TIME_ZONE)
     (get_station_info pd net st station_code) \<and>
   propagates_errors pd net st (BASE_URL @ ''/stations/'' @ station_code @ ''/observations'')
     None (Some TIME_ZONE) (get_more_station_info pd net st station_code) \<and>
   propagates_errors pd net st
     (BASE_URL @ ''/stations/'' @ station_code @ ''/observations/'' @
        or_default ''latest'' date_arg)
     (Some ''observations'') (or_default (Some TIME_ZONE) time_zone)
     (get_station_historical_observations pd net st station_code date_arg time_zone)"
  unfolding get_places_def get_place_info_def get_place_forecasts_def
    get_place_forecast_by_type_def get_stations_def get_station_info_def
    get_more_station_info_def get_station_historical_observations_def
  by (intro conjI get_table_propagates)

text \<open>
  The theorem against the server of the examples: the station \<open>kauno-ams\<close> is answered
  with 404, and the method raises this error after its one request; the observations
  of \<open>vilniaus-ams\<close> on 1 January 2024 are answered, and what the method returns is the
  normalization of the body.
\<close>

theorem endpoint_methods_propagate_errors_witness:
  "get_station_info example_library example_server new_client ''kauno-ams'' =
     (Inl (HTTPError 404),
      new_client\<lparr>trace := [Get ''https://api.meteo.lt/v1/stations/kauno-ams'']\<rparr>) \<and>
   fst (get_station_historical_observations example_library example_server new_client
     ''vilniaus-ams'' (Some ''2024-01-01'') None) =
     json_to_dataframe example_library (JObj observations_body) (Some ''observations'')
       (Some TIME_ZONE)"
proof -
  note spec = endpoint_methods_propagate_errors [of example_library example_server new_client
      "''kauno-ams''" None None "''kauno-ams''" "Some ''2024-01-01''"]
  have missing: "example_server (session (self new_client)) (trace new_client)
      (BASE_URL @ ''/stations/'' @ ''kauno-ams'') = Inr (error_response 404)"
    by (simp add: example_server_def BASE_URL_def)
  have status: "raise_for_status (error_response 404 :: real response) = Some (HTTPError 404)"
    by (simp add: error_response_def)
  from spec have info: "propagates_errors example_library example_server new_client
      (BASE_URL @ ''/stations/'' @ ''kauno-ams'') None (Some TIME_ZONE)
      (get_station_info example_library example_server new_client ''kauno-ams'')"
    by simp
  note raised = propagates_errors_status [OF info missing status]
  have "self (snd (get_station_info example_library example_server new_client
      ''kauno-ams'')) = self new_client"
    by (simp add: get_station_info_def get_table_state)
  with raised
  have 1: "get_station_info example_library example_server new_client ''kauno-ams'' =
     (Inl (HTTPError 404),
      new_client\<lparr>trace := [Get ''https://api.meteo.lt/v1/stations/kauno-ams'']\<rparr>)"
    by (simp add: prod_eq_iff BASE_URL_def new_client_def)
  note spec' = endpoint_methods_propagate_errors [of example_library example_server new_client
      "''vilniaus-ams''" None None "''vilniaus-ams''" "Some ''2024-01-01''"]
  have served: "example_server (session (self new_client)) (trace new_client)
      (BASE_URL @ ''/stations/'' @ ''vilniaus-ams'' @ ''/observations/'' @
         or_default ''latest'' (Some ''2024-01-01'')) =
      Inr (ok_response (JObj observations_body))"
    by (simp add: example_server_def BASE_URL_def or_default_def)
  have passes: "raise_for_status (ok_response (JObj observations_body)) = None"
    and body: "response_json (ok_response (JObj observations_body)) =
      Inr (JObj observations_body)"
    by (simp_all add: ok_response_def)
  from spec' have obs: "propagates_errors example_library example_server new_client
      (BASE_URL @ ''/stations/'' @ ''vilniaus-ams'' @ ''/observations/'' @
         or_default ''latest'' (Some ''2024-01-01''))
      (Some ''observations'') (or_default (Some TIME_ZONE) None)
      (get_station_historical_observations example_library example_server new_client
         ''vilniaus-ams'' (Some ''2024-01-01'') None)"
    by simp
  from propagates_errors_body [OF obs served passes body]
  have 2: "fst (get_station_historical_observations example_library example_server
      new_client ''vilniaus-ams'' (Some ''2024-01-01'') None) =
     json_to_dataframe example_library (JObj observations_body) (Some ''observations'')
       (Some TIME_ZONE)"
    by (simp add: or_default_def)
  from 1 2 show ?thesis by simp
qed

section \<open>The endpoint templates\<close>

text \<open>
  Claim C7. Each endpoint method adds one event to the trace, a GET, and its URL is a
  fixed template under the base URL \<^verbatim>\<open>https://api.meteo.lt/v1\<close> with the arguments of
  the method in the places of the template. \<open>get_place_forecast_by_type\<close> requests
  \<^verbatim>\<open>{BASE_URL}/places/{place_code}/forecasts/{forecast_type}\<close>, with \<^verbatim>\<open>long-term\<close> for
  a forecast type that is left out, and \<open>get_station_historical_observations\<close> requests
  \<^verbatim>\<open>{BASE_URL}/stations/{station_code}/observations/{date}\<close>, with \<^verbatim>\<open>latest\<close> for a date
  that is left out.
\<close>

theorem endpoint_urls:
  "BASE_URL = ''https://api.meteo.lt/v1'' \<and>
   trace (snd (get_places pd net st)) = trace st @ [Get ''https://api.meteo.lt/v1/places''] \<and>
   trace (snd (get_place_info pd net st place_code)) =
     trace st @ [Get (''https://api.meteo.lt/v1/places/'' @ place_code)] \<and>
   trace (snd (get_place_forecasts pd net st place_code)) =
     trace st @ [Get (''https://api.meteo.lt/v1/places/'' @ place_code @ ''/forecasts'')] \<and>
   trace (snd (get_place_forecast_by_type pd net st place_code (Some forecast_type) time_zone)) =
     trace st @ [Get (''https://api.meteo.lt/v1/places/'' @ place_code @ ''/forecasts/'' @
                        forecast_type)] \<and>
   get_place_forecast_by_type pd net st place_code None time_zone =
     get_place_forecast_by_type pd net st place_code (Some ''long-term'') time_zone \<and>
   trace (snd (get_stations pd net st)) = trace st @ [Get ''https://api.meteo.lt/v1/stations''] \<and>
   trace (snd (get_station_info pd net st station_code)) =
     trace st @ [Get (''https://api.meteo.lt/v1/stations/'' @ station_code)] \<and>
   trace (snd (get_more_station_info pd net st station_code)) =
     trace st @ [Get (''https://api.meteo.lt/v1/stations/'' @ station_code @ ''/observations'')] \<and>
   trace (snd (get_station_historical_observations pd net st station_code (Some day) time_zone)) =
     trace st @ [Get (''https://api.meteo.lt/v1/stations/'' @ station_code @
                        ''/observations/'' @ day)] \<and>
   get_station_historical_observations pd net st station_code None time_zone =
     get_station_historical_observations pd net st station_code (Some ''latest'') time_zone"
  by (simp add: get_places_def get_place_info_def get_place_forecasts_def
      get_place_forecast_by_type_def get_stations_def get_station_info_def
      get_more_station_info_def get_station_historical_observations_def
      get_table_state BASE_URL_def or_default_def)

section \<open>The iteration over the range of dates\<close>







section \<open>Backing off on a rate limit\<close>




section \<open>The client keeps no state\<close>












end
